theory Spec2Isabelle
  imports Complex_Main "HOL-Library.Multiset"
begin

section \<open>Python values read from JSON\<close>

text \<open>
  The services pass around what \<^verbatim>\<open>json.loads\<close> returns: \<^verbatim>\<open>None\<close>, booleans,
  numbers, strings, lists and dictionaries with string keys. A dictionary is an
  association list in insertion order whose keys are distinct; a lookup reads the first
  binding of a key. Numbers are rationals: the code only compares them, so every finite
  float or integer is represented exactly (NaN and the infinities are left out).
\<close>

datatype json =
    JNull
  | JBool bool
  | JNum rat
  | JStr string
  | JArr "json list"
  | JObj "(string \<times> json) list"

datatype py_error = AttributeError | KeyError | TypeError | ValidationError

text \<open>Sequencing of steps that may raise: the first exception ends the computation.\<close>

definition then_do :: "py_error + 'a \<Rightarrow> ('a \<Rightarrow> py_error + 'b) \<Rightarrow> py_error + 'b" where
  "then_do m f = (case m of Inl e \<Rightarrow> Inl e | Inr x \<Rightarrow> f x)"

text \<open>Truth value of an object, as \<^verbatim>\<open>if x\<close> and \<^verbatim>\<open>not x\<close> test it.\<close>

fun py_truthy :: "json \<Rightarrow> bool" where
  "py_truthy JNull = False"
| "py_truthy (JBool b) = b"
| "py_truthy (JNum r) = (r \<noteq> 0)"
| "py_truthy (JStr s) = (s \<noteq> [])"
| "py_truthy (JArr xs) = (xs \<noteq> [])"
| "py_truthy (JObj kvs) = (kvs \<noteq> [])"

text \<open>\<^verbatim>\<open>d.get(k, default)\<close>: only a dictionary has the method.\<close>

definition dict_get :: "(string \<times> json) list \<Rightarrow> string \<Rightarrow> json \<Rightarrow> json" where
  "dict_get kvs k dflt = (case map_of kvs k of None \<Rightarrow> dflt | Some v \<Rightarrow> v)"

fun py_get :: "json \<Rightarrow> string \<Rightarrow> json \<Rightarrow> py_error + json" where
  "py_get (JObj kvs) k dflt = Inr (dict_get kvs k dflt)"
| "py_get _ k dflt = Inl AttributeError"

text \<open>
  \<^verbatim>\<open>d[k]\<close> with a string \<^verbatim>\<open>k\<close>: a dictionary without the key raises KeyError; a string or a
  list cannot be indexed by a string, and the other values cannot be indexed at all.
\<close>

fun py_index :: "json \<Rightarrow> string \<Rightarrow> py_error + json" where
  "py_index (JObj kvs) k = (case map_of kvs k of None \<Rightarrow> Inl KeyError | Some v \<Rightarrow> Inr v)"
| "py_index _ k = Inl TypeError"

section \<open>Dates and expiry (ranking\_service.py)\<close>

text \<open>
  A naive \<^verbatim>\<open>datetime\<close> is the number of microseconds since a fixed epoch: comparison is
  the order of integers and \<^verbatim>\<open>(a - b).days\<close> is the floor of the difference in days.
  \<^verbatim>\<open>datetime.strptime\<close> belongs to the standard library and is a parameter: applied to a
  text and a format it yields the datetime, or nothing where Python raises ValueError.
\<close>

type_synonym datetime = int

type_synonym strptime = "string \<Rightarrow> string \<Rightarrow> datetime option"

definition formats :: "string list" where
  "formats =
     [''%Y-%m-%d'',
      ''%Y-%m-%dT%H:%M:%S'',
      ''%Y-%m-%dT%H:%M:%SZ'',
      ''%Y-%m-%d %H:%M:%S'',
      ''%d/%m/%Y'',
      ''%m/%d/%Y'',
      ''%B %d, %Y'',
      ''%b %d, %Y'']"

text \<open>The loop over the formats: the first one that parses wins.\<close>

fun try_formats :: "strptime \<Rightarrow> string \<Rightarrow> string list \<Rightarrow> datetime option" where
  "try_formats strp s [] = None"
| "try_formats strp s (fmt # fmts) =
     (case strp s fmt of Some d \<Rightarrow> Some d | None \<Rightarrow> try_formats strp s fmts)"

text \<open>
  \<^verbatim>\<open>_parse_date\<close>. A falsy argument gives \<^verbatim>\<open>None\<close> at once; \<^verbatim>\<open>strptime\<close> raises
  TypeError, which the loop does not catch, on a truthy argument that is not a string.
\<close>

definition parse_date :: "strptime \<Rightarrow> json \<Rightarrow> py_error + datetime option" where
  "parse_date strp date_str =
     (if \<not> py_truthy date_str then Inr None
      else case date_str of
             JStr s \<Rightarrow> Inr (try_formats strp s formats)
           | _ \<Rightarrow> Inl TypeError)"

text \<open>\<^verbatim>\<open>_is_expired\<close>.\<close>

definition is_expired :: "strptime \<Rightarrow> json \<Rightarrow> datetime \<Rightarrow> py_error + bool" where
  "is_expired strp opportunity current_date =
     then_do (py_get opportunity ''dates'' (JObj [])) (\<lambda>dates.
     then_do (py_get dates ''application_deadline'' JNull) (\<lambda>deadline_str.
       if \<not> py_truthy deadline_str then
         then_do (py_get dates ''start_date'' JNull) (\<lambda>start_str.
           if py_truthy start_str then
             then_do (parse_date strp start_str) (\<lambda>start_date.
               case start_date of
                 Some d \<Rightarrow> if d < current_date then Inr True else Inr False
               | None \<Rightarrow> Inr False)
           else Inr False)
       else
         then_do (parse_date strp deadline_str) (\<lambda>deadline.
           case deadline of
             Some d \<Rightarrow> Inr (d < current_date)
           | None \<Rightarrow> Inr False)))"

text \<open>\<^verbatim>\<open>_days_until_deadline\<close>: \<^verbatim>\<open>delta.days\<close> rounds towards minus infinity.\<close>

definition microseconds_per_day :: int where
  "microseconds_per_day = 86400000000"

definition days_until_deadline :: "strptime \<Rightarrow> json \<Rightarrow> datetime \<Rightarrow> py_error + int option" where
  "days_until_deadline strp opportunity current_date =
     then_do (py_get opportunity ''dates'' (JObj [])) (\<lambda>dates.
     then_do (py_get dates ''application_deadline'' JNull) (\<lambda>deadline_str.
       if \<not> py_truthy deadline_str then Inr None
       else
         then_do (parse_date strp deadline_str) (\<lambda>deadline.
           case deadline of
             Some d \<Rightarrow> Inr (Some ((d - current_date) div microseconds_per_day))
           | None \<Rightarrow> Inr None)))"

subsection \<open>The expiry rule in the specification's words\<close>

text \<open>
  A date field of the data model is an optional date string. It counts as present when
  it holds a non-empty string, which is what the code's test \<^verbatim>\<open>if not deadline_str\<close>
  lets through; \<^verbatim>\<open>None\<close> and the empty string count as absent.
\<close>

fun is_date_field :: "json \<Rightarrow> bool" where
  "is_date_field JNull = True"
| "is_date_field (JStr s) = True"
| "is_date_field _ = False"

fun date_text :: "json \<Rightarrow> string option" where
  "date_text (JStr s) = (if s = [] then None else Some s)"
| "date_text _ = None"

text \<open>
  The rule of the specification: with a deadline present, expired means that the deadline
  parses and lies strictly before the reference instant; with no deadline, that the
  start date is present, parses and lies strictly before it; with neither, never.
\<close>

definition expiry_rule ::
  "(string \<Rightarrow> datetime option) \<Rightarrow> string option \<Rightarrow> string option \<Rightarrow> datetime \<Rightarrow> bool" where
  "expiry_rule parse deadline start now =
     (case deadline of
        Some dl \<Rightarrow> (case parse dl of Some t \<Rightarrow> t < now | None \<Rightarrow> False)
      | None \<Rightarrow>
          (case start of
             Some st \<Rightarrow> (case parse st of Some t \<Rightarrow> t < now | None \<Rightarrow> False)
           | None \<Rightarrow> False))"

subsection \<open>Sample library behaviour for the worked examples\<close>

text \<open>
  The results of \<^verbatim>\<open>datetime.strptime\<close> on the date strings of the examples below:
  \<^verbatim>\<open>2020-01-01\<close> and \<^verbatim>\<open>2099-01-01\<close> parse with the first format \<^verbatim>\<open>%Y-%m-%d\<close>, to
  midnight of day 18262 and of day 47117 after 1970-01-01; \<^verbatim>\<open>next spring\<close> matches no
  format.
\<close>

definition sample_strptime :: strptime where
  "sample_strptime s fmt =
     (if fmt = ''%Y-%m-%d'' \<and> s = ''2020-01-01'' then Some (18262 * 86400000000)
      else if fmt = ''%Y-%m-%d'' \<and> s = ''2099-01-01'' then Some (47117 * 86400000000)
      else None)"

section \<open>Chunking (embedding\_service.py)\<close>

text \<open>
  A text is a list of characters; positions and sizes are Python integers. A slice
  \<^verbatim>\<open>s[i:j]\<close> counts a negative index from the end and clips both indices to the text.
\<close>

definition slice_index :: "nat \<Rightarrow> int \<Rightarrow> nat" where
  "slice_index n i = (if i < 0 then nat (max 0 (int n + i)) else min (nat i) n)"

definition py_slice :: "string \<Rightarrow> int \<Rightarrow> int \<Rightarrow> string" where
  "py_slice s i j =
     (let a = slice_index (length s) i; b = slice_index (length s) j
      in take (b - a) (drop a s))"

text \<open>\<^verbatim>\<open>s.find(sub)\<close> and \<^verbatim>\<open>s.rfind(sub)\<close>: the lowest and the highest index at which
  \<^verbatim>\<open>sub\<close> occurs in \<^verbatim>\<open>s\<close>, or \<^verbatim>\<open>-1\<close>.\<close>

definition occurs_at :: "string \<Rightarrow> string \<Rightarrow> nat \<Rightarrow> bool" where
  "occurs_at s sub i = (take (length sub) (drop i s) = sub)"

definition py_find :: "string \<Rightarrow> string \<Rightarrow> int" where
  "py_find s sub =
     (case filter (occurs_at s sub) [0..<Suc (length s)] of [] \<Rightarrow> - 1 | i # _ \<Rightarrow> int i)"

definition py_rfind :: "string \<Rightarrow> string \<Rightarrow> int" where
  "py_rfind s sub =
     (case filter (occurs_at s sub) (rev [0..<Suc (length s)]) of [] \<Rightarrow> - 1 | i # _ \<Rightarrow> int i)"

text \<open>\<^verbatim>\<open>s.strip()\<close> removes the white space at both ends; a character stands for the
  code point of its number.\<close>

definition is_space :: "char \<Rightarrow> bool" where
  "is_space c = ((of_char c :: nat) \<in> {9, 10, 11, 12, 13, 28, 29, 30, 31, 32, 133, 160})"

definition py_strip :: "string \<Rightarrow> string" where
  "py_strip s = rev (dropWhile is_space (rev (dropWhile is_space s)))"

text \<open>The sentence separators, in the order the \<^verbatim>\<open>for\<close> loop tries them.\<close>

definition separators :: "string list" where
  "separators = [''. '', [CHR ''.'', CHR 0x0A], ''! '', ''? '', [CHR 0x0A, CHR 0x0A]]"

text \<open>
  The \<^verbatim>\<open>for ... else\<close> over the separators: the first separator whose last occurrence in
  the window lies past the midpoint gives the length of the cut and breaks the loop.
\<close>

fun sentence_cut :: "string \<Rightarrow> int \<Rightarrow> string list \<Rightarrow> int option" where
  "sentence_cut window chunk_size [] = None"
| "sentence_cut window chunk_size (sep # seps) =
     (let last_sep = py_rfind window sep in
      if last_sep \<noteq> - 1 \<and> last_sep > chunk_size div 2
      then Some (last_sep + int (length sep))
      else sentence_cut window chunk_size seps)"

text \<open>The end of the window that starts at \<^verbatim>\<open>start\<close>, after the boundary search.\<close>

definition window_end :: "string \<Rightarrow> int \<Rightarrow> int \<Rightarrow> int" where
  "window_end text chunk_size start =
     (let end_pos = start + chunk_size in
      if end_pos < int (length text) then
        (case sentence_cut (py_slice text start end_pos) chunk_size separators of
           Some cut_len \<Rightarrow> start + cut_len
         | None \<Rightarrow>
             (let last_space = py_rfind (py_slice text start end_pos) '' '' in
              if last_space \<noteq> - 1 \<and> last_space > chunk_size div 2
              then start + last_space + 1
              else end_pos))
      else end_pos)"

text \<open>The start of the next window: \<^verbatim>\<open>end - overlap\<close>, raised to zero when negative.\<close>

definition next_start :: "int \<Rightarrow> int \<Rightarrow> int" where
  "next_start end_pos overlap =
     (let start = end_pos - overlap in if start < 0 then 0 else start)"

text \<open>
  The \<^verbatim>\<open>while start < len(text)\<close> loop. Nothing in the source bounds the number of
  iterations, so the loop is a partial function: the value \<open>None\<close> means that it never
  returns.
\<close>

partial_function (option) chunk_loop ::
  "string \<Rightarrow> int \<Rightarrow> int \<Rightarrow> int \<Rightarrow> string list \<Rightarrow> string list option" where
  "chunk_loop text chunk_size overlap start chunks =
     (if start < int (length text) then
        (let end_pos = window_end text chunk_size start;
             chunk = py_strip (py_slice text start end_pos)
         in chunk_loop text chunk_size overlap (next_start end_pos overlap)
              (if chunk \<noteq> [] then chunks @ [chunk] else chunks))
      else Some chunks)"

declare chunk_loop.simps [code]

text \<open>\<^verbatim>\<open>chunk_text\<close>.\<close>

definition chunk_text :: "string \<Rightarrow> int \<Rightarrow> int \<Rightarrow> string list option" where
  "chunk_text text chunk_size overlap =
     (if text = [] \<or> int (length text) \<le> chunk_size
      then Some (if text \<noteq> [] then [text] else [])
      else chunk_loop text chunk_size overlap 0 [])"

section \<open>Response parser (ai\_processor.py)\<close>

text \<open>
  \<^verbatim>\<open>json.loads\<close> belongs to the standard library and is a parameter: applied to a text it
  yields the decoded value, or nothing where Python raises JSONDecodeError.
\<close>

type_synonym json_loads = "string \<Rightarrow> json option"

text \<open>
  \<^verbatim>\<open>_parse_opportunities\<close>. Only the direct parse runs inside the \<^verbatim>\<open>try\<close>; the handler of
  its JSONDecodeError tries the text from the first \<^verbatim>\<open>[\<close> to the last \<^verbatim>\<open>]\<close>, then the text
  from the first \<^verbatim>\<open>{\<close> to the last \<^verbatim>\<open>}\<close>, and returns the empty list when both fail.
\<close>

definition parse_opportunities :: "json_loads \<Rightarrow> string \<Rightarrow> json" where
  "parse_opportunities loads raw_response =
     (case loads raw_response of
        Some opportunities \<Rightarrow>
          (case opportunities of
             JArr xs \<Rightarrow> opportunities
           | JObj kvs \<Rightarrow>
               (case map_of kvs ''opportunities'' of
                  Some v \<Rightarrow> v
                | None \<Rightarrow> JArr [opportunities])
           | _ \<Rightarrow> JArr [opportunities])
      | None \<Rightarrow>
          (let start_idx = py_find raw_response ''['';
               end_idx = py_rfind raw_response '']'' + 1
           in case (if start_idx \<noteq> - 1 \<and> end_idx > start_idx
                    then loads (py_slice raw_response start_idx end_idx)
                    else None) of
                Some parsed \<Rightarrow> parsed
              | None \<Rightarrow>
                  (let start_idx = py_find raw_response ''{'';
                       end_idx = py_rfind raw_response ''}'' + 1
                   in case (if start_idx \<noteq> - 1 \<and> end_idx > start_idx
                            then loads (py_slice raw_response start_idx end_idx)
                            else None) of
                        Some (JObj kvs) \<Rightarrow>
                          (case map_of kvs ''opportunities'' of
                             Some v \<Rightarrow> v
                           | None \<Rightarrow> JArr [JObj kvs])
                      | _ \<Rightarrow> JArr [])))"

fun is_list :: "json \<Rightarrow> bool" where
  "is_list (JArr xs) = True"
| "is_list _ = False"

text \<open>
  The results of \<^verbatim>\<open>json.loads\<close> on the texts of the examples below. Every other text
  that the examples hand to the decoder is not JSON.
\<close>

definition sample_loads :: json_loads where
  \<open>sample_loads =
     map_of
       [(''{"opportunities": null}'', JObj [(''opportunities'', JNull)]),
        (''[{"id": "a"}, {"id": "b"}]'',
           JArr [JObj [(''id'', JStr ''a'')], JObj [(''id'', JStr ''b'')]]),
        (''[{"match_score": 0.75}]'', JArr [JObj [(''match_score'', JNum (3 / 4))]]),
        (''["a"]'', JArr [JStr ''a'']),
        (''[{"opportunity_id": "c", "match_score": 0.75}]'',
           JArr [JObj [(''opportunity_id'', JStr ''c''), (''match_score'', JNum (3 / 4))]])]\<close>

section \<open>Ranking merge (ranking\_service.py)\<close>

text \<open>Running a step over a list, in order: the first exception ends the loop.\<close>

fun try_map :: "('a \<Rightarrow> py_error + 'b) \<Rightarrow> 'a list \<Rightarrow> py_error + 'b list" where
  "try_map f [] = Inr []"
| "try_map f (x # xs) = then_do (f x) (\<lambda>y. then_do (try_map f xs) (\<lambda>ys. Inr (y # ys)))"

text \<open>
  Iterating over a value, as a \<^verbatim>\<open>for\<close> loop or a comprehension does: a list yields its
  elements, a dictionary its keys, a string its characters; the other values are not
  iterable.
\<close>

fun py_iter :: "json \<Rightarrow> py_error + json list" where
  "py_iter (JArr xs) = Inr xs"
| "py_iter (JObj kvs) = Inr (map (\<lambda>kv. JStr (fst kv)) kvs)"
| "py_iter (JStr s) = Inr (map (\<lambda>c. JStr [c]) s)"
| "py_iter _ = Inl TypeError"

text \<open>\<^verbatim>\<open>sep.join(items)\<close>: every item has to be a string.\<close>

fun join_strings :: "string \<Rightarrow> string list \<Rightarrow> string" where
  "join_strings sep [] = []"
| "join_strings sep [s] = s"
| "join_strings sep (s # t # ss) = s @ sep @ join_strings sep (t # ss)"

fun string_of :: "json \<Rightarrow> py_error + string" where
  "string_of (JStr s) = Inr s"
| "string_of _ = Inl TypeError"

definition py_join :: "string \<Rightarrow> json list \<Rightarrow> py_error + string" where
  "py_join sep items = then_do (try_map string_of items) (\<lambda>ss. Inr (join_strings sep ss))"

text \<open>
  A dictionary key has to be hashable, which lists and dictionaries are not; \<^verbatim>\<open>True\<close> and
  \<^verbatim>\<open>False\<close> are the same keys as 1 and 0.
\<close>

fun hash_key :: "json \<Rightarrow> py_error + json" where
  "hash_key (JArr xs) = Inl TypeError"
| "hash_key (JObj kvs) = Inl TypeError"
| "hash_key (JBool b) = Inr (JNum (if b then 1 else 0))"
| "hash_key v = Inr v"

text \<open>\<^verbatim>\<open>d[k] = v\<close>: an existing key keeps its place, a new key goes to the end.\<close>

fun dict_set :: "'k \<Rightarrow> 'v \<Rightarrow> ('k \<times> 'v) list \<Rightarrow> ('k \<times> 'v) list" where
  "dict_set k v [] = [(k, v)]"
| "dict_set k v (kv # kvs) = (if fst kv = k then (k, v) # kvs else kv # dict_set k v kvs)"

text \<open>The city and the country of a location, each when it is truthy (\<^verbatim>\<open>loc_parts\<close>).\<close>

definition location_parts :: "json \<Rightarrow> py_error + json list" where
  "location_parts location =
     then_do (py_get location ''city'' JNull) (\<lambda>city.
     then_do (py_get location ''country'' JNull) (\<lambda>country.
       Inr ((if py_truthy city then [city] else []) @
            (if py_truthy country then [country] else []))))"

text \<open>
  \<^verbatim>\<open>_prepare_opportunity_text\<close> builds the text of one opportunity for the prompt. The
  prompt only travels to the external scorer, whose reply is a parameter of the model, so
  the model keeps the exceptions that building the text can raise and not the text:
  \<^verbatim>\<open>.get\<close> on a value that is no dictionary, and \<^verbatim>\<open>', '.join\<close> over the location parts
  and over the matched keywords.
\<close>

definition prepare_opportunity_text :: "json \<Rightarrow> py_error + unit" where
  "prepare_opportunity_text opportunity =
     then_do (py_get opportunity ''id'' (JStr ''unknown'')) (\<lambda>_.
     then_do (py_get opportunity ''dates'' (JObj [])) (\<lambda>dates.
     then_do (py_get dates ''start_date'' JNull) (\<lambda>_.
     then_do (py_get opportunity ''location'' (JObj [])) (\<lambda>location.
     then_do (location_parts location) (\<lambda>loc_parts.
     then_do (if loc_parts \<noteq> [] then py_join '', '' loc_parts else Inr []) (\<lambda>_.
     then_do (py_get opportunity ''compensation'' (JObj [])) (\<lambda>compensation.
     then_do (py_get compensation ''is_paid'' JNull) (\<lambda>_.
     then_do (py_get opportunity ''keywords_matched'' JNull) (\<lambda>keywords.
       if py_truthy keywords
       then then_do (py_iter keywords) (\<lambda>items.
            then_do (py_join '', '' items) (\<lambda>_. Inr ()))
       else Inr ())))))))))"

text \<open>
  What the scorer's answer decodes to. The reply is the text of the chat completion, or
  nothing when the call raises; every exception inside the \<^verbatim>\<open>try\<close> block, a second
  JSONDecodeError included, ends in the empty list.
\<close>

definition scoring_response :: "json_loads \<Rightarrow> string option \<Rightarrow> json" where
  "scoring_response loads reply =
     (case reply of
        None \<Rightarrow> JArr []
      | Some result_text \<Rightarrow>
          (case loads result_text of
             Some rankings \<Rightarrow> rankings
           | None \<Rightarrow>
               (let start_idx = py_find result_text ''['';
                    end_idx = py_rfind result_text '']'' + 1
                in if start_idx \<noteq> - 1 \<and> end_idx > start_idx
                   then (case loads (py_slice result_text start_idx end_idx) of
                           Some rankings \<Rightarrow> rankings
                         | None \<Rightarrow> JArr [])
                   else JArr [])))"

text \<open>
  \<^verbatim>\<open>rank_opportunities_with_ai\<close>: the texts of the opportunities are built before the
  \<^verbatim>\<open>try\<close> block, so an exception there leaves the function. The profile summary is
  formatted into the prompt and has no other use.
\<close>

definition rank_opportunities_with_ai ::
  "json_loads \<Rightarrow> string option \<Rightarrow> string \<Rightarrow> json list \<Rightarrow> py_error + json" where
  "rank_opportunities_with_ai loads reply profile_summary opportunities =
     then_do (try_map prepare_opportunity_text opportunities) (\<lambda>opp_texts.
       Inr (scoring_response loads reply))"

text \<open>The first loop of \<^verbatim>\<open>rank_opportunities\<close>: the valid opportunities and the number
  of expired ones.\<close>

fun filter_expired :: "strptime \<Rightarrow> datetime \<Rightarrow> json list \<Rightarrow> py_error + (json list \<times> nat)" where
  "filter_expired strp current_date [] = Inr ([], 0)"
| "filter_expired strp current_date (opp # opps) =
     then_do (is_expired strp opp current_date) (\<lambda>expired.
     then_do (filter_expired strp current_date opps) (\<lambda>(valid, expired_count).
       if expired then Inr (valid, Suc expired_count) else Inr (opp # valid, expired_count)))"

text \<open>
  The comprehension \<^verbatim>\<open>{r["opportunity_id"]: r for r in ai_rankings}\<close>: a later entry
  replaces an earlier one with the same key.
\<close>

fun ranking_lookup :: "(json \<times> json) list \<Rightarrow> json list \<Rightarrow> py_error + (json \<times> json) list" where
  "ranking_lookup acc [] = Inr acc"
| "ranking_lookup acc (r # rs) =
     then_do (py_index r ''opportunity_id'') (\<lambda>k.
     then_do (hash_key k) (\<lambda>key. ranking_lookup (dict_set key r acc) rs))"

text \<open>The body of the second loop: the ranked record of one valid opportunity.\<close>

definition ranked_entry ::
  "strptime \<Rightarrow> datetime \<Rightarrow> (json \<times> json) list \<Rightarrow> json \<Rightarrow> py_error + json" where
  "ranked_entry strp current_date ai_ranking_lookup opp =
     then_do (py_get opp ''id'' (JStr [])) (\<lambda>opp_id.
     then_do (hash_key opp_id) (\<lambda>key.
     then_do (Inr (case map_of ai_ranking_lookup key of Some r \<Rightarrow> r | None \<Rightarrow> JObj []))
       (\<lambda>ai_ranking.
     then_do (py_get opp ''location'' (JObj [])) (\<lambda>location.
     then_do (location_parts location) (\<lambda>loc_parts.
     then_do (if loc_parts \<noteq> []
              then then_do (py_join '', '' loc_parts) (\<lambda>s. Inr (JStr s))
              else Inr JNull) (\<lambda>location_str.
     then_do (py_get opp ''compensation'' (JObj [])) (\<lambda>compensation.
     then_do (py_get opp ''event_name'' (JStr ''Unknown Event'')) (\<lambda>event_name.
     then_do (py_get opp ''event_type'' JNull) (\<lambda>event_type.
     then_do (py_get opp ''description'' JNull) (\<lambda>description.
     then_do (py_get opp ''dates'' (JObj [])) (\<lambda>dates.
     then_do (py_get dates ''start_date'' JNull) (\<lambda>start_date.
     then_do (py_get dates ''end_date'' JNull) (\<lambda>end_date.
     then_do (py_get dates ''application_deadline'' JNull) (\<lambda>application_deadline.
     then_do (py_get location ''is_virtual'' (JBool False)) (\<lambda>is_virtual.
     then_do (py_get compensation ''is_paid'' (JBool False)) (\<lambda>is_paid.
     then_do (py_get compensation ''amount'' JNull) (\<lambda>compensation_amount.
     then_do (py_get opp ''application'' (JObj [])) (\<lambda>application.
     then_do (py_get application ''url'' JNull) (\<lambda>application_url.
     then_do (py_get opp ''source_url'' JNull) (\<lambda>source_url.
     then_do (py_get ai_ranking ''match_score'' (JNum (1 / 2))) (\<lambda>match_score.
     then_do (py_get ai_ranking ''relevance_score'' (JNum (1 / 2))) (\<lambda>relevance_score.
     then_do (py_get ai_ranking ''preference_score'' (JNum (1 / 2))) (\<lambda>preference_score.
     then_do (py_get ai_ranking ''match_reasons'' (JArr [])) (\<lambda>match_reasons.
     then_do (py_get ai_ranking ''matching_keywords'' (JArr [])) (\<lambda>matching_keywords.
     then_do (days_until_deadline strp opp current_date) (\<lambda>days.
       Inr (JObj
         [(''opportunity_id'', opp_id),
          (''event_name'', event_name),
          (''event_type'', event_type),
          (''description'', description),
          (''start_date'', start_date),
          (''end_date'', end_date),
          (''application_deadline'', application_deadline),
          (''location'', location_str),
          (''is_virtual'', is_virtual),
          (''is_paid'', is_paid),
          (''compensation_amount'', compensation_amount),
          (''application_url'', application_url),
          (''source_url'', source_url),
          (''match_score'', match_score),
          (''relevance_score'', relevance_score),
          (''preference_score'', preference_score),
          (''match_reasons'', match_reasons),
          (''matching_keywords'', matching_keywords),
          (''is_expired'', JBool False),
          (''days_until_deadline'',
             (case days of None \<Rightarrow> JNull | Some n \<Rightarrow> JNum (of_int n)))])
     ))))))))))))))))))))))))))"

text \<open>
  \<^verbatim>\<open>ranked_results.sort(key=lambda x: x["match_score"], reverse=True)\<close>. The keys are
  computed first. A list of fewer than two records needs no comparison. Numbers (the
  booleans among them) compare with each other; \<^verbatim>\<open>None\<close>, dictionaries and values of mixed
  types do not, and the sort raises TypeError. With \<^verbatim>\<open>reverse=True\<close> the list is reversed,
  sorted stably in ascending order and reversed again. (Python can also order keys that
  are all strings, and some lists; the model reports TypeError for these, which no score
  of the data model is.)
\<close>

fun is_number :: "json \<Rightarrow> bool" where
  "is_number (JNum r) = True"
| "is_number (JBool b) = True"
| "is_number _ = False"

fun number_value :: "json \<Rightarrow> rat" where
  "number_value (JNum r) = r"
| "number_value (JBool b) = (if b then 1 else 0)"
| "number_value _ = 0"

definition entry_score :: "json \<Rightarrow> rat" where
  "entry_score x = (case py_index x ''match_score'' of Inr v \<Rightarrow> number_value v | Inl e \<Rightarrow> 0)"

definition sort_by_match_score :: "json list \<Rightarrow> py_error + json list" where
  "sort_by_match_score ranked_results =
     then_do (try_map (\<lambda>x. py_index x ''match_score'') ranked_results) (\<lambda>keys.
       if length ranked_results \<le> 1 then Inr ranked_results
       else if list_all is_number keys
            then Inr (rev (sort_key entry_score (rev ranked_results)))
            else Inl TypeError)"

record ranking_result =
  ranked_opportunities :: "json list"
  total_opportunities :: nat
  valid_opportunities :: nat
  expired_opportunities :: nat

text \<open>
  \<^verbatim>\<open>rank_opportunities\<close>. The reference instant (\<^verbatim>\<open>datetime.utcnow()\<close>) and the scorer's
  reply are parameters.
\<close>

definition rank_opportunities ::
  "strptime \<Rightarrow> json_loads \<Rightarrow> datetime \<Rightarrow> string option \<Rightarrow> string \<Rightarrow> json list
     \<Rightarrow> py_error + ranking_result" where
  "rank_opportunities strp loads current_date reply profile_summary opportunities =
     then_do (filter_expired strp current_date opportunities) (\<lambda>(valid, expired_count).
       if valid = [] then
         Inr \<lparr>ranked_opportunities = [],
              total_opportunities = length opportunities,
              valid_opportunities = 0,
              expired_opportunities = expired_count\<rparr>
       else
         then_do (rank_opportunities_with_ai loads reply profile_summary valid) (\<lambda>ai_rankings.
         then_do (py_iter ai_rankings) (\<lambda>entries.
         then_do (ranking_lookup [] entries) (\<lambda>ai_ranking_lookup.
         then_do (try_map (ranked_entry strp current_date ai_ranking_lookup) valid)
           (\<lambda>ranked_results.
         then_do (sort_by_match_score ranked_results) (\<lambda>sorted_results.
           Inr \<lparr>ranked_opportunities = sorted_results,
                total_opportunities = length opportunities,
                valid_opportunities = length valid,
                expired_opportunities = expired_count\<rparr>))))))"

subsection \<open>The inputs of the data model\<close>

text \<open>
  What the ranking reads of an opportunity of the data model: the identifier is a string;
  the sub-records \<^verbatim>\<open>dates\<close>, \<^verbatim>\<open>location\<close>, \<^verbatim>\<open>compensation\<close> and \<^verbatim>\<open>application\<close> are
  dictionaries when they are given; date, city and country fields are optional strings;
  the matched keywords are a list of strings when they are given.
\<close>

fun is_string :: "json \<Rightarrow> bool" where
  "is_string (JStr s) = True"
| "is_string _ = False"

fun is_optional_string :: "json \<Rightarrow> bool" where
  "is_optional_string JNull = True"
| "is_optional_string (JStr s) = True"
| "is_optional_string _ = False"

fun is_dict :: "json \<Rightarrow> bool" where
  "is_dict (JObj kvs) = True"
| "is_dict _ = False"

fun wf_dates :: "json \<Rightarrow> bool" where
  "wf_dates (JObj d) =
     (is_date_field (dict_get d ''application_deadline'' JNull) \<and>
      is_date_field (dict_get d ''start_date'' JNull))"
| "wf_dates _ = False"

fun wf_location :: "json \<Rightarrow> bool" where
  "wf_location (JObj l) =
     (is_optional_string (dict_get l ''city'' JNull) \<and>
      is_optional_string (dict_get l ''country'' JNull))"
| "wf_location _ = False"

fun wf_keywords :: "json \<Rightarrow> bool" where
  "wf_keywords JNull = True"
| "wf_keywords (JArr xs) = list_all is_string xs"
| "wf_keywords _ = False"

fun wf_opportunity :: "json \<Rightarrow> bool" where
  "wf_opportunity (JObj kvs) =
     (is_string (dict_get kvs ''id'' (JStr [])) \<and>
      wf_dates (dict_get kvs ''dates'' (JObj [])) \<and>
      wf_location (dict_get kvs ''location'' (JObj [])) \<and>
      is_dict (dict_get kvs ''compensation'' (JObj [])) \<and>
      is_dict (dict_get kvs ''application'' (JObj [])) \<and>
      wf_keywords (dict_get kvs ''keywords_matched'' JNull))"
| "wf_opportunity _ = False"

text \<open>
  A scoring response of the expected shape: a list of dictionaries, each with a string
  \<^verbatim>\<open>opportunity_id\<close> and, when it gives a \<^verbatim>\<open>match_score\<close>, a number.
\<close>

fun is_score :: "json \<Rightarrow> bool" where
  "is_score (JNum r) = True"
| "is_score _ = False"

fun wf_score_entry :: "json \<Rightarrow> bool" where
  "wf_score_entry (JObj kvs) =
     (is_string (dict_get kvs ''opportunity_id'' JNull) \<and>
      is_score (dict_get kvs ''match_score'' (JNum (1 / 2))))"
| "wf_score_entry _ = False"

fun wf_scoring :: "json \<Rightarrow> bool" where
  "wf_scoring (JArr entries) = list_all wf_score_entry entries"
| "wf_scoring _ = False"

text \<open>Reading a field of a record, for the statements below.\<close>

fun entry_field :: "json \<Rightarrow> string \<Rightarrow> json \<Rightarrow> json" where
  "entry_field (JObj kvs) k dflt = dict_get kvs k dflt"
| "entry_field _ k dflt = dflt"

text \<open>The identifiers that a scoring response covers.\<close>

fun scored_ids :: "json \<Rightarrow> json list" where
  "scored_ids (JArr entries) = map (\<lambda>r. entry_field r ''opportunity_id'' JNull) entries"
| "scored_ids _ = []"

text \<open>A ranked record that carries the defaults of an opportunity without a score.\<close>

definition unscored :: "json \<Rightarrow> bool" where
  "unscored e =
     (entry_field e ''match_score'' JNull = JNum (1 / 2) \<and>
      entry_field e ''relevance_score'' JNull = JNum (1 / 2) \<and>
      entry_field e ''preference_score'' JNull = JNum (1 / 2) \<and>
      entry_field e ''match_reasons'' JNull = JArr [] \<and>
      entry_field e ''matching_keywords'' JNull = JArr [])"

text \<open>The non-expired opportunities of an input list, in input order.\<close>

definition valid_of :: "strptime \<Rightarrow> datetime \<Rightarrow> json list \<Rightarrow> json list" where
  "valid_of strp current_date opportunities =
     filter (\<lambda>opp. is_expired strp opp current_date = Inr False) opportunities"

subsection \<open>Sample opportunities for the worked examples\<close>

text \<open>
  Three records and a reference instant (midnight of day 20000 after 1970-01-01):
  \<^verbatim>\<open>Conf A\<close> closes in 2099, \<^verbatim>\<open>Conf B\<close> closed in 2020, \<^verbatim>\<open>Conf C\<close> has no dates.
\<close>

definition conf_a :: json where
  "conf_a = JObj [(''id'', JStr ''a''), (''event_name'', JStr ''Conf A''),
                  (''dates'', JObj [(''application_deadline'', JStr ''2099-01-01'')])]"

definition conf_b :: json where
  "conf_b = JObj [(''id'', JStr ''b''), (''event_name'', JStr ''Conf B''),
                  (''dates'', JObj [(''application_deadline'', JStr ''2020-01-01'')])]"

definition conf_c :: json where
  "conf_c = JObj [(''id'', JStr ''c''), (''event_name'', JStr ''Conf C''),
                  (''location'', JObj [(''city'', JStr ''Oslo''), (''country'', JStr ''Norway'')])]"

definition sample_now :: datetime where
  "sample_now = 20000 * 86400000000"

section \<open>Schema normalizer (opportunity.py, ai\_processor.py)\<close>

subsection \<open>The canonical records\<close>

datatype opportunity_type =
  CONFERENCE | SEMINAR | WEBINAR | PODCAST | PANEL | WORKSHOP | KEYNOTE | OTHER

datatype compensation_type =
  PAID | HONORARIUM | TRAVEL_ONLY | UNPAID | NEGOTIABLE | UNKNOWN

fun opportunity_type_value :: "opportunity_type \<Rightarrow> string" where
  "opportunity_type_value CONFERENCE = ''conference''"
| "opportunity_type_value SEMINAR = ''seminar''"
| "opportunity_type_value WEBINAR = ''webinar''"
| "opportunity_type_value PODCAST = ''podcast''"
| "opportunity_type_value PANEL = ''panel''"
| "opportunity_type_value WORKSHOP = ''workshop''"
| "opportunity_type_value KEYNOTE = ''keynote''"
| "opportunity_type_value OTHER = ''other''"

fun compensation_type_value :: "compensation_type \<Rightarrow> string" where
  "compensation_type_value PAID = ''paid''"
| "compensation_type_value HONORARIUM = ''honorarium''"
| "compensation_type_value TRAVEL_ONLY = ''travel_only''"
| "compensation_type_value UNPAID = ''unpaid''"
| "compensation_type_value NEGOTIABLE = ''negotiable''"
| "compensation_type_value UNKNOWN = ''unknown''"

text \<open>Every field of the models is declared \<^verbatim>\<open>Optional\<close>, the identifier and the event
  name apart.\<close>

record date_info =
  start_date :: "string option"
  end_date :: "string option"
  application_deadline :: "string option"

record location =
  venue :: "string option"
  city :: "string option"
  state :: "string option"
  country :: "string option"
  is_virtual :: "bool option"
  has_virtual_option :: "bool option"

record compensation =
  is_paid :: "bool option"
  compensation_type :: "compensation_type option"
  amount :: "rat option"
  currency :: "string option"
  includes_travel :: "bool option"
  includes_accommodation :: "bool option"
  details :: "string option"

record application_info =
  url :: "string option"
  contact_email :: "string option"
  requirements :: "string list option"

record opportunity =
  opp_id :: string
  event_name :: string
  event_type :: "opportunity_type option"
  description :: "string option"
  dates :: "date_info option"
  location :: "location option"
  compensation :: "compensation option"
  application :: "application_info option"
  target_audience :: "string list option"
  expected_audience_size :: "string option"
  keywords_matched :: "string list option"
  source_url :: "string option"
  confidence_score :: "rat option"

subsection \<open>Validation by the model classes\<close>

text \<open>
  The classes derive from pydantic's \<^verbatim>\<open>BaseModel\<close> (version 2: the service calls
  \<^verbatim>\<open>model_dump\<close>). What the library does with a field is modelled as follows. A value of
  the declared type is taken as it is: a string for \<^verbatim>\<open>str\<close>, a boolean for \<^verbatim>\<open>bool\<close>, a
  number for \<^verbatim>\<open>float\<close>, the value string of a member for an enumeration, a list of
  strings for \<^verbatim>\<open>List[str]\<close>. A string field accepts nothing else. For the other scalar
  types the library also converts some values of other types; which ones is left open:
  the conversions are a parameter of the model, asked only about values that are not of
  the declared type. Unknown keys are ignored.
\<close>

record coercions =
  lax_bool :: "json \<Rightarrow> bool option"
  lax_float :: "json \<Rightarrow> rat option"
  lax_event_type :: "json \<Rightarrow> opportunity_type option"
  lax_compensation_type :: "json \<Rightarrow> compensation_type option"

definition or_invalid :: "'a option \<Rightarrow> py_error + 'a" where
  "or_invalid x = (case x of Some a \<Rightarrow> Inr a | None \<Rightarrow> Inl ValidationError)"

fun validate_str :: "json \<Rightarrow> py_error + string" where
  "validate_str (JStr s) = Inr s"
| "validate_str _ = Inl ValidationError"

fun validate_str_list :: "json \<Rightarrow> py_error + string list" where
  "validate_str_list (JArr xs) = try_map validate_str xs"
| "validate_str_list _ = Inl ValidationError"

fun validate_bool :: "coercions \<Rightarrow> json \<Rightarrow> py_error + bool" where
  "validate_bool C (JBool b) = Inr b"
| "validate_bool C v = or_invalid (lax_bool C v)"

fun validate_float :: "coercions \<Rightarrow> json \<Rightarrow> py_error + rat" where
  "validate_float C (JNum r) = Inr r"
| "validate_float C v = or_invalid (lax_float C v)"

definition opportunity_types :: "opportunity_type list" where
  "opportunity_types = [CONFERENCE, SEMINAR, WEBINAR, PODCAST, PANEL, WORKSHOP, KEYNOTE, OTHER]"

definition compensation_types :: "compensation_type list" where
  "compensation_types = [PAID, HONORARIUM, TRAVEL_ONLY, UNPAID, NEGOTIABLE, UNKNOWN]"

definition validate_event_type :: "coercions \<Rightarrow> json \<Rightarrow> py_error + opportunity_type" where
  "validate_event_type C v =
     (case v of
        JStr s \<Rightarrow>
          (case find (\<lambda>t. opportunity_type_value t = s) opportunity_types of
             Some t \<Rightarrow> Inr t
           | None \<Rightarrow> or_invalid (lax_event_type C v))
      | _ \<Rightarrow> or_invalid (lax_event_type C v))"

definition validate_compensation_type ::
  "coercions \<Rightarrow> json \<Rightarrow> py_error + compensation_type" where
  "validate_compensation_type C v =
     (case v of
        JStr s \<Rightarrow>
          (case find (\<lambda>t. compensation_type_value t = s) compensation_types of
             Some t \<Rightarrow> Inr t
           | None \<Rightarrow> or_invalid (lax_compensation_type C v))
      | _ \<Rightarrow> or_invalid (lax_compensation_type C v))"

text \<open>\<^verbatim>\<open>Field(default=0.5, ge=0.0, le=1.0)\<close>: the bounds are checked on the validated number.\<close>

definition validate_confidence :: "coercions \<Rightarrow> json \<Rightarrow> py_error + rat" where
  "validate_confidence C v =
     then_do (validate_float C v) (\<lambda>r.
       if 0 \<le> r \<and> r \<le> 1 then Inr r else Inl ValidationError)"

text \<open>
  A field declared \<^verbatim>\<open>Optional[T] = default\<close>: a missing key gives the default, \<^verbatim>\<open>None\<close>
  stays \<^verbatim>\<open>None\<close>, any other value goes through the validator of \<^verbatim>\<open>T\<close>. A required field
  has no default and does not accept \<^verbatim>\<open>None\<close>.
\<close>

definition validate_optional :: "(json \<Rightarrow> py_error + 'a) \<Rightarrow> json \<Rightarrow> py_error + 'a option" where
  "validate_optional validate v =
     (if v = JNull then Inr None else then_do (validate v) (\<lambda>a. Inr (Some a)))"

definition optional_field ::
  "(json \<Rightarrow> py_error + 'a) \<Rightarrow> 'a option \<Rightarrow> (string \<times> json) list \<Rightarrow> string
     \<Rightarrow> py_error + 'a option" where
  "optional_field validate dflt data k =
     (case map_of data k of
        None \<Rightarrow> Inr dflt
      | Some v \<Rightarrow> validate_optional validate v)"

definition required_field ::
  "(json \<Rightarrow> py_error + 'a) \<Rightarrow> (string \<times> json) list \<Rightarrow> string \<Rightarrow> py_error + 'a" where
  "required_field validate data k =
     (case map_of data k of
        None \<Rightarrow> Inl ValidationError
      | Some v \<Rightarrow> validate v)"

text \<open>
  The statement \<^verbatim>\<open>if data.get(k) is None: data[k] = v\<close> of the \<^verbatim>\<open>__init__\<close> methods.
\<close>

definition default_none :: "string \<Rightarrow> json \<Rightarrow> (string \<times> json) list \<Rightarrow> (string \<times> json) list" where
  "default_none k v data = (if dict_get data k JNull = JNull then dict_set k v data else data)"

text \<open>
  The methods are declared as \<^verbatim>\<open>__init__(self, **data)\<close>: a record with a key \<^verbatim>\<open>self\<close>
  cannot be passed as keyword arguments and raises TypeError.
\<close>

definition has_key :: "(string \<times> json) list \<Rightarrow> string \<Rightarrow> bool" where
  "has_key data k = (map_of data k \<noteq> None)"

text \<open>\<^verbatim>\<open>DateInfo\<close> has no \<^verbatim>\<open>__init__\<close> of its own.\<close>

fun validate_date_info :: "json \<Rightarrow> py_error + date_info" where
  "validate_date_info (JObj data) =
     then_do (optional_field validate_str None data ''start_date'') (\<lambda>sd.
     then_do (optional_field validate_str None data ''end_date'') (\<lambda>ed.
     then_do (optional_field validate_str None data ''application_deadline'') (\<lambda>ad.
       Inr \<lparr>start_date = sd, end_date = ed, application_deadline = ad\<rparr>)))"
| "validate_date_info _ = Inl ValidationError"

text \<open>\<^verbatim>\<open>Location.__init__\<close> and the validation it hands over to.\<close>

definition location_init :: "coercions \<Rightarrow> (string \<times> json) list \<Rightarrow> py_error + location" where
  "location_init C data0 =
     (if has_key data0 ''self'' then Inl TypeError
      else
        let data = default_none ''has_virtual_option'' (JBool False)
                     (default_none ''is_virtual'' (JBool False) data0)
        in
        then_do (optional_field validate_str None data ''venue'') (\<lambda>v.
        then_do (optional_field validate_str None data ''city'') (\<lambda>ci.
        then_do (optional_field validate_str None data ''state'') (\<lambda>st.
        then_do (optional_field validate_str None data ''country'') (\<lambda>co.
        then_do (optional_field (validate_bool C) (Some False) data ''is_virtual'') (\<lambda>iv.
        then_do (optional_field (validate_bool C) (Some False) data ''has_virtual_option'')
          (\<lambda>hv.
          Inr \<lparr>venue = v, city = ci, state = st, country = co,
               is_virtual = iv, has_virtual_option = hv\<rparr>)))))))"

fun validate_location :: "coercions \<Rightarrow> json \<Rightarrow> py_error + location" where
  "validate_location C (JObj data) = location_init C data"
| "validate_location C _ = Inl ValidationError"

text \<open>\<^verbatim>\<open>Compensation.__init__\<close>.\<close>

definition compensation_init ::
  "coercions \<Rightarrow> (string \<times> json) list \<Rightarrow> py_error + compensation" where
  "compensation_init C data0 =
     (if has_key data0 ''self'' then Inl TypeError
      else
        let data = default_none ''compensation_type'' (JStr (compensation_type_value UNKNOWN))
                     (default_none ''includes_accommodation'' (JBool False)
                       (default_none ''includes_travel'' (JBool False)
                         (default_none ''is_paid'' (JBool False) data0)))
        in
        then_do (optional_field (validate_bool C) (Some False) data ''is_paid'') (\<lambda>ip.
        then_do (optional_field (validate_compensation_type C) (Some UNKNOWN) data
                   ''compensation_type'') (\<lambda>ct.
        then_do (optional_field (validate_float C) None data ''amount'') (\<lambda>am.
        then_do (optional_field validate_str (Some ''USD'') data ''currency'') (\<lambda>cu.
        then_do (optional_field (validate_bool C) (Some False) data ''includes_travel'') (\<lambda>it.
        then_do (optional_field (validate_bool C) (Some False) data ''includes_accommodation'')
          (\<lambda>ia.
        then_do (optional_field validate_str None data ''details'') (\<lambda>de.
          Inr \<lparr>is_paid = ip, compensation_type = ct, amount = am, currency = cu,
               includes_travel = it, includes_accommodation = ia, details = de\<rparr>))))))))"

fun validate_compensation :: "coercions \<Rightarrow> json \<Rightarrow> py_error + compensation" where
  "validate_compensation C (JObj data) = compensation_init C data"
| "validate_compensation C _ = Inl ValidationError"

text \<open>\<^verbatim>\<open>ApplicationInfo.__init__\<close>.\<close>

definition application_info_init :: "(string \<times> json) list \<Rightarrow> py_error + application_info" where
  "application_info_init data0 =
     (if has_key data0 ''self'' then Inl TypeError
      else
        let data = default_none ''requirements'' (JArr []) data0 in
        then_do (optional_field validate_str None data ''url'') (\<lambda>u.
        then_do (optional_field validate_str None data ''contact_email'') (\<lambda>ce.
        then_do (optional_field validate_str_list (Some []) data ''requirements'') (\<lambda>rq.
          Inr \<lparr>url = u, contact_email = ce, requirements = rq\<rparr>))))"

fun validate_application_info :: "json \<Rightarrow> py_error + application_info" where
  "validate_application_info (JObj data) = application_info_init data"
| "validate_application_info _ = Inl ValidationError"

text \<open>The zero-value structures: what the models make of an empty dictionary.\<close>

definition default_date_info :: date_info where
  "default_date_info = \<lparr>start_date = None, end_date = None, application_deadline = None\<rparr>"

definition default_location :: location where
  "default_location =
     \<lparr>venue = None, city = None, state = None, country = None,
      is_virtual = Some False, has_virtual_option = Some False\<rparr>"

definition default_compensation :: compensation where
  "default_compensation =
     \<lparr>is_paid = Some False, compensation_type = Some UNKNOWN, amount = None,
      currency = Some ''USD'', includes_travel = Some False,
      includes_accommodation = Some False, details = None\<rparr>"

definition default_application_info :: application_info where
  "default_application_info = \<lparr>url = None, contact_email = None, requirements = Some []\<rparr>"

text \<open>\<^verbatim>\<open>Opportunity.__init__\<close>: the eight defaults, then the validation of the fields.\<close>

definition opportunity_defaults :: "(string \<times> json) list \<Rightarrow> (string \<times> json) list" where
  "opportunity_defaults data =
     default_none ''confidence_score'' (JNum (1 / 2))
       (default_none ''event_type'' (JStr (opportunity_type_value OTHER))
         (default_none ''keywords_matched'' (JArr [])
           (default_none ''target_audience'' (JArr [])
             (default_none ''application'' (JObj [])
               (default_none ''compensation'' (JObj [])
                 (default_none ''location'' (JObj [])
                   (default_none ''dates'' (JObj []) data)))))))"

definition opportunity_init :: "coercions \<Rightarrow> (string \<times> json) list \<Rightarrow> py_error + opportunity" where
  "opportunity_init C data0 =
     (if has_key data0 ''self'' then Inl TypeError
      else
        let data = opportunity_defaults data0 in
        then_do (required_field validate_str data ''id'') (\<lambda>i.
        then_do (required_field validate_str data ''event_name'') (\<lambda>en.
        then_do (optional_field (validate_event_type C) (Some OTHER) data ''event_type'') (\<lambda>et.
        then_do (optional_field validate_str None data ''description'') (\<lambda>de.
        then_do (optional_field validate_date_info (Some default_date_info) data ''dates'')
          (\<lambda>da.
        then_do (optional_field (validate_location C) (Some default_location) data ''location'')
          (\<lambda>lo.
        then_do (optional_field (validate_compensation C) (Some default_compensation) data
                   ''compensation'') (\<lambda>co.
        then_do (optional_field validate_application_info (Some default_application_info) data
                   ''application'') (\<lambda>ap.
        then_do (optional_field validate_str_list (Some []) data ''target_audience'') (\<lambda>ta.
        then_do (optional_field validate_str None data ''expected_audience_size'') (\<lambda>ea.
        then_do (optional_field validate_str_list (Some []) data ''keywords_matched'') (\<lambda>km.
        then_do (optional_field validate_str None data ''source_url'') (\<lambda>su.
        then_do (optional_field (validate_confidence C) (Some (1 / 2)) data ''confidence_score'')
          (\<lambda>cs.
          Inr \<lparr>opp_id = i, event_name = en, event_type = et, description = de, dates = da,
               location = lo, compensation = co, application = ap, target_audience = ta,
               expected_audience_size = ea, keywords_matched = km, source_url = su,
               confidence_score = cs\<rparr>))))))))))))))"

subsection \<open>\<^verbatim>\<open>_validate_and_fix_opportunities\<close>\<close>

text \<open>
  The body of the loop for one raw record. The token is what \<^verbatim>\<open>uuid.uuid4().hex[:8]\<close>
  yields when the record needs an identifier. The outcome is the accepted opportunity, or
  nothing when the record is skipped: by the \<^verbatim>\<open>continue\<close> for a record without a name, or
  by the handler of any exception, the AttributeError of a record that is no dictionary
  included.
\<close>

definition fix_record :: "string \<Rightarrow> string list \<Rightarrow> (string \<times> json) list \<Rightarrow> (string \<times> json) list" where
  "fix_record token keywords raw =
     (let raw1 = (if \<not> py_truthy (dict_get raw ''id'' JNull)
                  then dict_set ''id'' (JStr (''opp_'' @ token)) raw else raw)
      in if \<not> py_truthy (dict_get raw1 ''keywords_matched'' JNull)
         then dict_set ''keywords_matched'' (JArr (map JStr keywords)) raw1 else raw1)"

definition normalize_record :: "coercions \<Rightarrow> string \<Rightarrow> string list \<Rightarrow> json \<Rightarrow> opportunity option" where
  "normalize_record C token keywords raw =
     (case raw of
        JObj data \<Rightarrow>
          if \<not> py_truthy (dict_get data ''event_name'' JNull) then None
          else (case opportunity_init C (fix_record token keywords data) of
                  Inr opportunity \<Rightarrow> Some opportunity
                | Inl e \<Rightarrow> None)
      | _ \<Rightarrow> None)"

text \<open>The loop over the enumerated records; \<open>fresh i\<close> is the token drawn at index \<open>i\<close>.\<close>

fun validate_from ::
  "coercions \<Rightarrow> (nat \<Rightarrow> string) \<Rightarrow> string list \<Rightarrow> nat \<Rightarrow> json list \<Rightarrow> opportunity list" where
  "validate_from C fresh keywords i [] = []"
| "validate_from C fresh keywords i (raw # raws) =
     (case normalize_record C (fresh i) keywords raw of
        Some opportunity \<Rightarrow> opportunity # validate_from C fresh keywords (Suc i) raws
      | None \<Rightarrow> validate_from C fresh keywords (Suc i) raws)"

definition validate_and_fix_opportunities ::
  "coercions \<Rightarrow> (nat \<Rightarrow> string) \<Rightarrow> json list \<Rightarrow> string list \<Rightarrow> opportunity list" where
  "validate_and_fix_opportunities C fresh raw_opportunities keywords =
     validate_from C fresh keywords 0 raw_opportunities"

subsection \<open>The record of an opportunity\<close>

text \<open>
  \<^verbatim>\<open>model_dump()\<close>, with which the service turns an opportunity back into a dictionary:
  every field under its name, \<^verbatim>\<open>None\<close> for an empty optional, a nested model as a
  dictionary, a member of an enumeration (a string subclass) as its value string.
\<close>

definition dump_optional :: "('a \<Rightarrow> json) \<Rightarrow> 'a option \<Rightarrow> json" where
  "dump_optional f x = (case x of None \<Rightarrow> JNull | Some a \<Rightarrow> f a)"

definition dump_str_list :: "string list \<Rightarrow> json" where
  "dump_str_list xs = JArr (map JStr xs)"

definition dump_date_info :: "date_info \<Rightarrow> json" where
  "dump_date_info d =
     JObj [(''start_date'', dump_optional JStr (start_date d)),
           (''end_date'', dump_optional JStr (end_date d)),
           (''application_deadline'', dump_optional JStr (application_deadline d))]"

definition dump_location :: "location \<Rightarrow> json" where
  "dump_location l =
     JObj [(''venue'', dump_optional JStr (venue l)),
           (''city'', dump_optional JStr (city l)),
           (''state'', dump_optional JStr (state l)),
           (''country'', dump_optional JStr (country l)),
           (''is_virtual'', dump_optional JBool (is_virtual l)),
           (''has_virtual_option'', dump_optional JBool (has_virtual_option l))]"

definition dump_compensation :: "compensation \<Rightarrow> json" where
  "dump_compensation c =
     JObj [(''is_paid'', dump_optional JBool (is_paid c)),
           (''compensation_type'',
              dump_optional (\<lambda>t. JStr (compensation_type_value t)) (compensation_type c)),
           (''amount'', dump_optional JNum (amount c)),
           (''currency'', dump_optional JStr (currency c)),
           (''includes_travel'', dump_optional JBool (includes_travel c)),
           (''includes_accommodation'', dump_optional JBool (includes_accommodation c)),
           (''details'', dump_optional JStr (details c))]"

definition dump_application_info :: "application_info \<Rightarrow> json" where
  "dump_application_info a =
     JObj [(''url'', dump_optional JStr (url a)),
           (''contact_email'', dump_optional JStr (contact_email a)),
           (''requirements'', dump_optional dump_str_list (requirements a))]"

definition opportunity_record :: "opportunity \<Rightarrow> json" where
  "opportunity_record opp =
     JObj [(''id'', JStr (opp_id opp)),
           (''event_name'', JStr (event_name opp)),
           (''event_type'',
              dump_optional (\<lambda>t. JStr (opportunity_type_value t)) (event_type opp)),
           (''description'', dump_optional JStr (description opp)),
           (''dates'', dump_optional dump_date_info (dates opp)),
           (''location'', dump_optional dump_location (location opp)),
           (''compensation'', dump_optional dump_compensation (compensation opp)),
           (''application'', dump_optional dump_application_info (application opp)),
           (''target_audience'', dump_optional dump_str_list (target_audience opp)),
           (''expected_audience_size'', dump_optional JStr (expected_audience_size opp)),
           (''keywords_matched'', dump_optional dump_str_list (keywords_matched opp)),
           (''source_url'', dump_optional JStr (source_url opp)),
           (''confidence_score'', dump_optional JNum (confidence_score opp))]"

subsection \<open>The invariant of a constructed opportunity\<close>

text \<open>A field of a raw record that is \<^verbatim>\<open>None\<close> or missing.\<close>

definition field_null :: "(string \<times> json) list \<Rightarrow> string \<Rightarrow> bool" where
  "field_null data k = (dict_get data k JNull = JNull)"

text \<open>The dictionary under a key, empty when the key holds no dictionary.\<close>

definition sub_record :: "(string \<times> json) list \<Rightarrow> string \<Rightarrow> (string \<times> json) list" where
  "sub_record data k = (case dict_get data k JNull of JObj d \<Rightarrow> d | _ \<Rightarrow> [])"

text \<open>No nested sub-record, list or boolean of the opportunity is \<^verbatim>\<open>None\<close>.\<close>

definition location_non_null :: "location \<Rightarrow> bool" where
  "location_non_null l = (is_virtual l \<noteq> None \<and> has_virtual_option l \<noteq> None)"

definition compensation_non_null :: "compensation \<Rightarrow> bool" where
  "compensation_non_null c =
     (is_paid c \<noteq> None \<and> includes_travel c \<noteq> None \<and> includes_accommodation c \<noteq> None)"

definition application_non_null :: "application_info \<Rightarrow> bool" where
  "application_non_null a = (requirements a \<noteq> None)"

definition non_null :: "opportunity \<Rightarrow> bool" where
  "non_null opp =
     (dates opp \<noteq> None \<and>
      (case location opp of Some l \<Rightarrow> location_non_null l | None \<Rightarrow> False) \<and>
      (case compensation opp of Some c \<Rightarrow> compensation_non_null c | None \<Rightarrow> False) \<and>
      (case application opp of Some a \<Rightarrow> application_non_null a | None \<Rightarrow> False) \<and>
      target_audience opp \<noteq> None \<and>
      keywords_matched opp \<noteq> None)"

text \<open>
  What the normalization with a given keyword list leaves behind: a non-empty identifier
  and name, no \<^verbatim>\<open>None\<close> where a default is put in, the keyword list of the call when the
  record had none, and a confidence score within its bounds.
\<close>

definition normalized :: "string list \<Rightarrow> opportunity \<Rightarrow> bool" where
  "normalized keywords opp =
     (opp_id opp \<noteq> [] \<and> event_name opp \<noteq> [] \<and> event_type opp \<noteq> None \<and>
      non_null opp \<and>
      (case compensation opp of Some c \<Rightarrow> compensation_type c \<noteq> None | None \<Rightarrow> False) \<and>
      (case keywords_matched opp of
         Some ks \<Rightarrow> if ks = [] then keywords = [] else True
       | None \<Rightarrow> False) \<and>
      (case confidence_score opp of Some r \<Rightarrow> 0 \<le> r \<and> r \<le> 1 | None \<Rightarrow> False))"

text \<open>Conversions that convert nothing, and the tokens of the examples.\<close>

definition no_coercion :: coercions where
  "no_coercion =
     \<lparr>lax_bool = (\<lambda>v. None), lax_float = (\<lambda>v. None),
      lax_event_type = (\<lambda>v. None), lax_compensation_type = (\<lambda>v. None)\<rparr>"

definition sample_fresh :: "nat \<Rightarrow> string" where
  "sample_fresh i = ''0a1b2c3d''"

text \<open>
  A raw record with a null location and a null \<^verbatim>\<open>is_paid\<close>, and the opportunity that the
  model classes make of it.
\<close>

definition sample_raw :: "(string \<times> json) list" where
  "sample_raw =
     [(''id'', JStr ''a''), (''event_name'', JStr ''Conf A''), (''location'', JNull),
      (''compensation'', JObj [(''is_paid'', JNull)])]"

definition sample_opportunity :: opportunity where
  "sample_opportunity =
     \<lparr>opp_id = ''a'', event_name = ''Conf A'', event_type = Some OTHER, description = None,
      dates = Some default_date_info, location = Some default_location,
      compensation = Some default_compensation,
      application = Some default_application_info, target_audience = Some [],
      expected_audience_size = None, keywords_matched = Some [], source_url = None,
      confidence_score = Some (1 / 2)\<rparr>"

text \<open>A raw record whose confidence score lies above the interval.\<close>

definition sample_raw_overconfident :: "(string \<times> json) list" where
  "sample_raw_overconfident =
     [(''id'', JStr ''x''), (''event_name'', JStr ''Conf B''),
      (''confidence_score'', JNum (3 / 2))]"

section \<open>Properties of the expiry check\<close>

lemma then_do_Inr [simp]: "then_do (Inr x) f = f x"
  by (simp add: then_do_def)

lemma then_do_Inl [simp]: "then_do (Inl e) f = Inl e"
  by (simp add: then_do_def)

lemma parse_date_text:
  "is_date_field v \<Longrightarrow> py_truthy v \<Longrightarrow>
     \<exists>s. date_text v = Some s \<and> parse_date strp v = Inr (try_formats strp s formats)"
  by (cases v) (simp_all add: parse_date_def)

lemma date_text_falsy: "is_date_field v \<Longrightarrow> \<not> py_truthy v \<Longrightarrow> date_text v = None"
  by (cases v) simp_all

lemma try_formats_none: "\<forall>fmt\<in>set fmts. strp s fmt = None \<Longrightarrow> try_formats strp s fmts = None"
  by (induction fmts) simp_all

lemma is_expired_eq_rule:
  assumes "py_get opportunity ''dates'' (JObj []) = Inr date_dict"
    and "py_get date_dict ''application_deadline'' JNull = Inr deadline"
    and "py_get date_dict ''start_date'' JNull = Inr start"
    and "is_date_field deadline"
    and "is_date_field start"
  shows "is_expired strp opportunity now =
           Inr (expiry_rule (\<lambda>s. try_formats strp s formats)
                  (date_text deadline) (date_text start) now)"
proof (cases "py_truthy deadline")
  case True
  from parse_date_text [OF assms(4) True, of strp]
  obtain s where s: "date_text deadline = Some s"
    "parse_date strp deadline = Inr (try_formats strp s formats)" by blast
  show ?thesis
    using assms(1,2) True s
    by (simp add: is_expired_def expiry_rule_def split: option.splits)
next
  case False
  have dl: "date_text deadline = None"
    using assms(4) False by (rule date_text_falsy)
  show ?thesis
  proof (cases "py_truthy start")
    case True
    from parse_date_text [OF assms(5) True, of strp]
    obtain s where s: "date_text start = Some s"
      "parse_date strp start = Inr (try_formats strp s formats)" by blast
    show ?thesis
      using assms(1,2,3) False True dl s
      by (simp add: is_expired_def expiry_rule_def split: option.splits)
  next
    case nostart: False
    have "date_text start = None"
      using assms(5) nostart by (rule date_text_falsy)
    then show ?thesis
      using assms(1,2,3) False nostart dl
      by (simp add: is_expired_def expiry_rule_def)
  qed
qed

text \<open>
  C4. For every reference instant and every opportunity whose date fields are optional
  date strings, \<^verbatim>\<open>_is_expired\<close> returns exactly the verdict of the expiry rule: the
  deadline decides when it is present, the start date decides when no deadline is
  present, and with neither the opportunity is not expired. In particular a deadline
  that parses to an instant not before the reference instant means not expired,
  whatever the start date is.
\<close>

theorem is_expired_matches_rule:
  assumes "py_get opportunity ''dates'' (JObj []) = Inr date_dict"
    and "py_get date_dict ''application_deadline'' JNull = Inr deadline"
    and "py_get date_dict ''start_date'' JNull = Inr start"
    and "is_date_field deadline"
    and "is_date_field start"
  shows "is_expired strp opportunity now =
           Inr (expiry_rule (\<lambda>s. try_formats strp s formats)
                  (date_text deadline) (date_text start) now)
         \<and> (\<forall>s t. date_text deadline = Some s \<and> try_formats strp s formats = Some t \<and> now \<le> t
              \<longrightarrow> is_expired strp opportunity now = Inr False)"
proof -
  have main: "is_expired strp opportunity now =
      Inr (expiry_rule (\<lambda>s. try_formats strp s formats)
             (date_text deadline) (date_text start) now)"
    using assms by (rule is_expired_eq_rule)
  show ?thesis
    unfolding main by (auto simp: expiry_rule_def)
qed

theorem is_expired_matches_rule_witness:
  "py_get (JObj [(''id'', JStr ''b''),
                 (''dates'', JObj [(''start_date'', JStr ''2099-01-01''),
                                   (''application_deadline'', JStr ''2020-01-01'')])])
      ''dates'' (JObj [])
     = Inr (JObj [(''start_date'', JStr ''2099-01-01''),
                  (''application_deadline'', JStr ''2020-01-01'')])
   \<and> py_get (JObj [(''start_date'', JStr ''2099-01-01''),
                    (''application_deadline'', JStr ''2020-01-01'')])
        ''application_deadline'' JNull = Inr (JStr ''2020-01-01'')
   \<and> py_get (JObj [(''start_date'', JStr ''2099-01-01''),
                    (''application_deadline'', JStr ''2020-01-01'')])
        ''start_date'' JNull = Inr (JStr ''2099-01-01'')
   \<and> is_date_field (JStr ''2020-01-01'')
   \<and> is_date_field (JStr ''2099-01-01'')
   \<and> is_expired sample_strptime
        (JObj [(''id'', JStr ''b''),
               (''dates'', JObj [(''start_date'', JStr ''2099-01-01''),
                                 (''application_deadline'', JStr ''2020-01-01'')])])
        (20000 * 86400000000) = Inr True"
proof -
  let ?dates = "JObj [(''start_date'', JStr ''2099-01-01''),
                      (''application_deadline'', JStr ''2020-01-01'')]"
  let ?opp = "JObj [(''id'', JStr ''b''), (''dates'', ?dates)]"
  have h1: "py_get ?opp ''dates'' (JObj []) = Inr ?dates"
    by (simp add: dict_get_def)
  have h2: "py_get ?dates ''application_deadline'' JNull = Inr (JStr ''2020-01-01'')"
    by (simp add: dict_get_def)
  have h3: "py_get ?dates ''start_date'' JNull = Inr (JStr ''2099-01-01'')"
    by (simp add: dict_get_def)
  have h4: "is_date_field (JStr ''2020-01-01'')" by simp
  have h5: "is_date_field (JStr ''2099-01-01'')" by simp
  from is_expired_matches_rule [OF h1 h2 h3 h4 h5, of sample_strptime "20000 * 86400000000"]
  have "is_expired sample_strptime ?opp (20000 * 86400000000)
          = Inr (expiry_rule (\<lambda>s. try_formats sample_strptime s formats)
                   (date_text (JStr ''2020-01-01'')) (date_text (JStr ''2099-01-01''))
                   (20000 * 86400000000))"
    by blast
  also have "\<dots> = Inr True"
    by (simp add: expiry_rule_def formats_def sample_strptime_def)
  finally show ?thesis
    using h1 h2 h3 h4 h5 by blast
qed

text \<open>
  C10. A deadline that is a non-empty string matching none of the accepted formats makes
  \<^verbatim>\<open>_is_expired\<close> answer false without looking at the start date (the start date is
  consulted only when the deadline is absent or empty), and \<^verbatim>\<open>_days_until_deadline\<close>
  returns no value for it.
\<close>

theorem unparseable_deadline_not_expired:
  assumes "py_get opportunity ''dates'' (JObj []) = Inr date_dict"
    and "py_get date_dict ''application_deadline'' JNull = Inr (JStr s)"
    and "s \<noteq> []"
    and "\<forall>fmt\<in>set formats. strp s fmt = None"
  shows "is_expired strp opportunity now = Inr False
         \<and> days_until_deadline strp opportunity now = Inr None"
proof -
  have "try_formats strp s formats = None"
    using assms(4) by (rule try_formats_none)
  then have "parse_date strp (JStr s) = Inr None"
    using assms(3) by (simp add: parse_date_def)
  then show ?thesis
    using assms(1,2,3) by (simp add: is_expired_def days_until_deadline_def)
qed

theorem unparseable_deadline_not_expired_witness:
  "is_expired sample_strptime
     (JObj [(''dates'', JObj [(''start_date'', JStr ''2020-01-01''),
                              (''application_deadline'', JStr ''next spring'')])])
     (20000 * 86400000000) = Inr False
   \<and> days_until_deadline sample_strptime
     (JObj [(''dates'', JObj [(''start_date'', JStr ''2020-01-01''),
                              (''application_deadline'', JStr ''next spring'')])])
     (20000 * 86400000000) = Inr None
   \<and> is_expired sample_strptime
     (JObj [(''dates'', JObj [(''start_date'', JStr ''2020-01-01'')])])
     (20000 * 86400000000) = Inr True"
proof -
  let ?dates = "JObj [(''start_date'', JStr ''2020-01-01''),
                      (''application_deadline'', JStr ''next spring'')]"
  let ?opp = "JObj [(''dates'', ?dates)]"
  have h1: "py_get ?opp ''dates'' (JObj []) = Inr ?dates"
    by (simp add: dict_get_def)
  have h2: "py_get ?dates ''application_deadline'' JNull = Inr (JStr ''next spring'')"
    by (simp add: dict_get_def)
  have h3: "''next spring'' \<noteq> []" by simp
  have h4: "\<forall>fmt\<in>set formats. sample_strptime ''next spring'' fmt = None"
    by (simp add: formats_def sample_strptime_def)
  have "is_expired sample_strptime
     (JObj [(''dates'', JObj [(''start_date'', JStr ''2020-01-01'')])])
     (20000 * 86400000000) = Inr True"
    by (simp add: is_expired_def parse_date_def formats_def sample_strptime_def dict_get_def)
  then show ?thesis
    using unparseable_deadline_not_expired
      [where strp = sample_strptime and s = "''next spring''"
         and now = "20000 * 86400000000", OF h1 h2 h3 h4]
    by simp
qed

section \<open>Properties of chunking\<close>

text \<open>
  The boundary search never cuts at or before the midpoint, so a window ends at least
  \<open>min chunk_size (chunk_size div 2 + 2)\<close> characters after its start.
\<close>

lemma sentence_cut_lower:
  "sentence_cut w cs seps = Some c \<Longrightarrow> \<forall>sep\<in>set seps. sep \<noteq> [] \<Longrightarrow> cs div 2 + 2 \<le> c"
proof (induction seps)
  case Nil
  then show ?case by simp
next
  case (Cons sep seps)
  then show ?case
    by (cases sep) (auto simp: Let_def split: if_splits)
qed

lemma window_end_lower:
  "start + min cs (cs div 2 + 2) \<le> window_end text cs start"
proof -
  have seps: "\<forall>sep\<in>set separators. sep \<noteq> []"
    by (simp add: separators_def)
  have "cs div 2 + 2 \<le> c" if "sentence_cut w cs separators = Some c" for w c
    using that seps by (rule sentence_cut_lower)
  then show ?thesis
    by (fastforce simp: window_end_def Let_def min_def split: option.splits)
qed

lemma next_start_advances:
  assumes "0 \<le> start" "overlap < cs" "overlap \<le> cs div 2 + 1"
  shows "start < next_start (window_end text cs start) overlap"
  using window_end_lower [of start cs "text"] assms
  by (simp add: next_start_def Let_def min_def split: if_splits)

text \<open>
  With an overlap of at most \<open>chunk_size div 2 + 1\<close> (the defaults 1000 and 200 are
  such) every window starts after the previous one and the loop returns.
\<close>

lemma chunk_loop_terminates:
  assumes "overlap < cs" "overlap \<le> cs div 2 + 1"
  shows "0 \<le> start \<Longrightarrow> \<exists>r. chunk_loop text cs overlap start chunks = Some r"
proof (induction "nat (int (length text) - start)" arbitrary: start chunks rule: less_induct)
  case less
  show ?case
  proof (cases "start < int (length text)")
    case False
    then show ?thesis by (subst chunk_loop.simps) simp
  next
    case True
    let ?s = "next_start (window_end text cs start) overlap"
    have adv: "start < ?s"
      using less.prems assms by (rule next_start_advances)
    then have "nat (int (length text) - ?s) < nat (int (length text) - start)"
      using True by linarith
    moreover have "0 \<le> ?s" using adv less.prems by linarith
    ultimately have "\<exists>r. chunk_loop text cs overlap ?s
        (if py_strip (py_slice text start (window_end text cs start)) \<noteq> []
         then chunks @ [py_strip (py_slice text start (window_end text cs start))]
         else chunks) = Some r"
      by (rule less.hyps)
    then show ?thesis
      using True by (subst chunk_loop.simps) (simp add: Let_def)
  qed
qed

lemma chunk_text_terminates:
  assumes "overlap < cs" "overlap \<le> cs div 2 + 1"
  shows "\<exists>r. chunk_text text cs overlap = Some r"
  using chunk_loop_terminates [OF assms, of 0 "text" "[]"]
  by (simp add: chunk_text_def)

text \<open>
  A larger overlap can undo the whole advance. In the text \<^verbatim>\<open>aaaaaa aaaaaaaaa\<close> with
  chunk size 10 the first window is cut after the space, at position 7.
\<close>

lemma stuck_window_end: "window_end ''aaaaaa aaaaaaaaa'' 10 0 = 7"
  by (simp add: window_end_def py_slice_def slice_index_def separators_def py_rfind_def
      occurs_at_def)

lemma stuck_loop:
  assumes "chunk_loop t cs ov start chunks = Some y"
  shows "\<not> (t = ''aaaaaa aaaaaaaaa'' \<and> cs = 10 \<and> ov = 7 \<and> start = 0)"
proof (rule chunk_loop.raw_induct
    [where P = "\<lambda>t cs ov start chunks y.
                  \<not> (t = ''aaaaaa aaaaaaaaa'' \<and> cs = 10 \<and> ov = 7 \<and> start = 0)",
     OF _ assms], goal_cases)
  case (1 loop t cs ov start chunks y)
  show ?case
  proof
    assume a: "t = ''aaaaaa aaaaaaaaa'' \<and> cs = 10 \<and> ov = 7 \<and> start = 0"
    from a 1(2) have "\<exists>chunks'. loop ''aaaaaa aaaaaaaaa'' 10 7 0 chunks' = Some y"
      by (auto simp add: stuck_window_end next_start_def Let_def)
    then obtain chunks' where run: "loop ''aaaaaa aaaaaaaaa'' 10 7 0 chunks' = Some y" ..
    from 1(1) [OF run] show False by simp
  qed
qed

text \<open>
  C3. The claim is that \<^verbatim>\<open>chunk_text\<close> returns, with strictly increasing window starts,
  whenever \<open>0 \<le> overlap < chunk_size\<close>. On the text \<^verbatim>\<open>aaaaaa aaaaaaaaa\<close> with chunk
  size 10 and overlap 7 the code does neither: the window that starts at 0 is followed by
  a window that starts at 0 again, and the call never returns.
\<close>

theorem chunk_text_overlap_7_of_10_never_returns:
  "(0::int) \<le> 7 \<and> (7::int) < 10
   \<and> next_start (window_end ''aaaaaa aaaaaaaaa'' 10 0) 7 = 0
   \<and> chunk_text ''aaaaaa aaaaaaaaa'' 10 7 = None"
proof -
  have "chunk_loop ''aaaaaa aaaaaaaaa'' 10 7 0 [] = None"
  proof (cases "chunk_loop ''aaaaaa aaaaaaaaa'' 10 7 0 []")
    case None
    then show ?thesis .
  next
    case (Some y)
    from stuck_loop [OF Some] show ?thesis by simp
  qed
  then show ?thesis
    by (simp add: chunk_text_def stuck_window_end next_start_def)
qed

section \<open>Properties of the response parser\<close>

text \<open>Searching for a single character: the first and the last position where it stands.\<close>

lemma occurs_at_single: "occurs_at s [c] i \<longleftrightarrow> i < length s \<and> s ! i = c"
proof (cases "i < length s")
  case True
  then have "drop i s = s ! i # drop (Suc i) s"
    by (simp add: Cons_nth_drop_Suc)
  then show ?thesis using True by (simp add: occurs_at_def)
next
  case False
  then show ?thesis by (simp add: occurs_at_def)
qed

lemma upt_split:
  assumes "k \<le> n"
  shows "[0..<Suc n] = [0..<k] @ k # [Suc k..<Suc n]"
proof -
  have "[0..<k + (Suc n - k)] = [0..<k] @ [k..<k + (Suc n - k)]"
    by (rule upt_add_eq_append) simp
  moreover have "k + (Suc n - k) = Suc n"
    using assms by simp
  moreover have "[k..<Suc n] = k # [Suc k..<Suc n]"
    using assms by (simp add: upt_conv_Cons)
  ultimately show ?thesis by simp
qed

lemma py_find_first:
  assumes "c \<notin> set p"
  shows "py_find (p @ c # rest) [c] = int (length p)"
proof -
  let ?s = "p @ c # rest"
  have split: "[0..<Suc (length ?s)] = [0..<length p] @ length p # [Suc (length p)..<Suc (length ?s)]"
    by (rule upt_split) simp
  have none: "filter (occurs_at ?s [c]) [0..<length p] = []"
    using assms by (auto simp: filter_empty_conv occurs_at_single nth_append)
  have here: "occurs_at ?s [c] (length p)"
    by (simp add: occurs_at_single)
  show ?thesis
    unfolding py_find_def split using none here by simp
qed

lemma py_rfind_last:
  assumes "c \<notin> set q"
  shows "py_rfind (p @ c # q) [c] = int (length p)"
proof -
  let ?s = "p @ c # q"
  have split: "[0..<Suc (length ?s)] = [0..<length p] @ length p # [Suc (length p)..<Suc (length ?s)]"
    by (rule upt_split) simp
  have none: "filter (occurs_at ?s [c]) [Suc (length p)..<Suc (length ?s)] = []"
  proof -
    have "\<not> occurs_at ?s [c] i" if "Suc (length p) \<le> i" for i
    proof (cases "i < length ?s")
      case True
      with that have "?s ! i = q ! (i - Suc (length p))"
        by (simp add: nth_append nth_Cons')
      moreover have "q ! (i - Suc (length p)) \<in> set q"
        using True that by (intro nth_mem) simp
      ultimately show ?thesis using assms by (auto simp: occurs_at_single)
    next
      case False
      then show ?thesis by (simp add: occurs_at_single)
    qed
    then show ?thesis by (auto simp: filter_empty_conv)
  qed
  have here: "occurs_at ?s [c] (length p)"
    by (simp add: occurs_at_single)
  have "filter (occurs_at ?s [c]) [0..<Suc (length ?s)]
          = filter (occurs_at ?s [c]) [0..<length p] @ [length p]"
    by (simp only: split filter_append filter.simps none here if_True)
  then show ?thesis
    unfolding py_rfind_def rev_filter [symmetric] by simp
qed

lemma py_slice_middle:
  "py_slice (p @ m @ q) (int (length p)) (int (length p) + int (length m)) = m"
proof -
  have "nat (int (length p) + int (length m)) = length p + length m"
    by linarith
  then show ?thesis
    by (simp add: py_slice_def slice_index_def Let_def)
qed

text \<open>
  C6 (amended). A JSON array embedded in prose is recovered exactly when the search from
  the first \<^verbatim>\<open>[\<close> to the last \<^verbatim>\<open>]\<close> finds it: the whole text is not JSON, the prose before
  the array contains no \<^verbatim>\<open>[\<close> and the prose after it contains no \<^verbatim>\<open>]\<close>.
\<close>

theorem parse_opportunities_embedded_array:
  assumes "loads (prose_before @ array_text @ prose_after) = None"
    and "loads array_text = Some v"
    and "array_text = ''['' @ body @ '']''"
    and "CHR ''['' \<notin> set prose_before"
    and "CHR '']'' \<notin> set prose_after"
  shows "parse_opportunities loads (prose_before @ array_text @ prose_after) = v"
proof -
  let ?raw = "prose_before @ array_text @ prose_after"
  have "?raw = prose_before @ CHR ''['' # (body @ '']'' @ prose_after)"
    using assms(3) by simp
  then have start: "py_find ?raw ''['' = int (length prose_before)"
    using py_find_first [OF assms(4)] by simp
  have e: "?raw = (prose_before @ ''['' @ body) @ CHR '']'' # prose_after"
    using assms(3) by simp
  have "py_rfind ?raw '']'' = int (length (prose_before @ ''['' @ body))"
    unfolding e by (rule py_rfind_last [OF assms(5)])
  then have stop: "py_rfind ?raw '']'' + 1 = int (length prose_before) + int (length array_text)"
    using assms(3) by simp
  have slice: "py_slice ?raw (int (length prose_before))
      (int (length prose_before) + int (length array_text)) = array_text"
    by (rule py_slice_middle)
  have pos: "0 < int (length array_text)"
    using assms(3) by simp
  show ?thesis
    using assms(1,2) pos
    by (simp add: parse_opportunities_def start stop slice Let_def)
qed

theorem parse_opportunities_embedded_array_witness:
  \<open>sample_loads (''Here you go: '' @ ''[{"id": "a"}, {"id": "b"}]'' @ '' Enjoy!'') = None
   \<and> sample_loads ''[{"id": "a"}, {"id": "b"}]''
       = Some (JArr [JObj [(''id'', JStr ''a'')], JObj [(''id'', JStr ''b'')]])
   \<and> ''[{"id": "a"}, {"id": "b"}]'' = ''['' @ ''{"id": "a"}, {"id": "b"}'' @ '']''
   \<and> CHR ''['' \<notin> set ''Here you go: ''
   \<and> CHR '']'' \<notin> set '' Enjoy!''
   \<and> parse_opportunities sample_loads
         (''Here you go: '' @ ''[{"id": "a"}, {"id": "b"}]'' @ '' Enjoy!'')
       = JArr [JObj [(''id'', JStr ''a'')], JObj [(''id'', JStr ''b'')]]\<close>
proof -
  have h1: \<open>sample_loads (''Here you go: '' @ ''[{"id": "a"}, {"id": "b"}]'' @ '' Enjoy!'')
      = None\<close>
    by (simp add: sample_loads_def)
  have h2: \<open>sample_loads ''[{"id": "a"}, {"id": "b"}]''
      = Some (JArr [JObj [(''id'', JStr ''a'')], JObj [(''id'', JStr ''b'')]])\<close>
    by (simp add: sample_loads_def)
  have h3: \<open>''[{"id": "a"}, {"id": "b"}]'' = ''['' @ ''{"id": "a"}, {"id": "b"}'' @ '']''\<close>
    by simp
  have h4: "CHR ''['' \<notin> set ''Here you go: ''" by simp
  have h5: "CHR '']'' \<notin> set '' Enjoy!''" by simp
  from parse_opportunities_embedded_array [OF h1 h2 h3 h4 h5] h1 h2 h3 h4 h5
  show ?thesis by blast
qed

text \<open>
  C6 as stated fails when the prose itself contains a bracket: the search then starts at
  the bracket of the prose, the text from there is not JSON, the search for an object
  finds two objects in a row, and the parser returns the empty list.
\<close>

theorem parse_opportunities_bracket_in_prose:
  \<open>sample_loads ''[{"id": "a"}, {"id": "b"}]''
       = Some (JArr [JObj [(''id'', JStr ''a'')], JObj [(''id'', JStr ''b'')]])
   \<and> sample_loads (''Found [2 results]: '' @ ''[{"id": "a"}, {"id": "b"}]'') = None
   \<and> parse_opportunities sample_loads (''Found [2 results]: '' @ ''[{"id": "a"}, {"id": "b"}]'')
       = JArr []
   \<and> parse_opportunities sample_loads (''Found [2 results]: '' @ ''[{"id": "a"}, {"id": "b"}]'')
       \<noteq> JArr [JObj [(''id'', JStr ''a'')], JObj [(''id'', JStr ''b'')]]\<close>
  by (simp add: parse_opportunities_def sample_loads_def py_find_def py_rfind_def occurs_at_def
      py_slice_def slice_index_def)

text \<open>
  When the direct parse and both searches fail, the result is the empty list.
\<close>

lemma parse_opportunities_nothing_parses:
  assumes "loads raw = None"
    and "loads (py_slice raw (py_find raw ''['') (py_rfind raw '']'' + 1)) = None"
    and "loads (py_slice raw (py_find raw ''{'') (py_rfind raw ''}'' + 1)) = None"
  shows "parse_opportunities loads raw = JArr []"
  using assms by (simp add: parse_opportunities_def Let_def)

text \<open>
  C8. The claim is that \<^verbatim>\<open>_parse_opportunities\<close> always returns a list. On the text
  \<^verbatim>\<open>{"opportunities": null}\<close> the direct parse succeeds with a dictionary that has the
  field, and the code returns the value of the field as it is: \<^verbatim>\<open>None\<close>, not a list.
\<close>

theorem parse_opportunities_returns_field_unchecked:
  \<open>parse_opportunities sample_loads ''{"opportunities": null}'' = JNull
   \<and> \<not> is_list (parse_opportunities sample_loads ''{"opportunities": null}'')\<close>
  by (simp add: parse_opportunities_def sample_loads_def)

section \<open>Properties of the ranking merge\<close>

subsection \<open>No step raises on inputs of the data model\<close>

lemma wf_dates_gets:
  assumes "wf_dates date_dict"
  shows "\<exists>deadline start. py_get date_dict ''application_deadline'' JNull = Inr deadline
           \<and> py_get date_dict ''start_date'' JNull = Inr start
           \<and> is_date_field deadline \<and> is_date_field start"
  using assms by (cases date_dict) simp_all

lemma wf_opportunity_dates:
  assumes "wf_opportunity opp"
  shows "\<exists>date_dict. py_get opp ''dates'' (JObj []) = Inr date_dict \<and> wf_dates date_dict"
  using assms by (cases opp) simp_all

lemma is_expired_total:
  assumes "wf_opportunity opp"
  shows "\<exists>b. is_expired strp opp now = Inr b"
proof -
  from wf_opportunity_dates [OF assms] obtain date_dict
    where d: "py_get opp ''dates'' (JObj []) = Inr date_dict" "wf_dates date_dict" by blast
  from wf_dates_gets [OF d(2)] obtain deadline start
    where f: "py_get date_dict ''application_deadline'' JNull = Inr deadline"
      "py_get date_dict ''start_date'' JNull = Inr start"
      "is_date_field deadline" "is_date_field start" by blast
  from is_expired_eq_rule [OF d(1) f] show ?thesis by blast
qed

lemma parse_date_total:
  "is_date_field v \<Longrightarrow> \<exists>r. parse_date strp v = Inr r"
  by (cases v) (simp_all add: parse_date_def)

lemma days_until_deadline_total:
  assumes "wf_opportunity opp"
  shows "\<exists>d. days_until_deadline strp opp now = Inr d"
proof -
  from wf_opportunity_dates [OF assms] obtain date_dict
    where d: "py_get opp ''dates'' (JObj []) = Inr date_dict" "wf_dates date_dict" by blast
  from wf_dates_gets [OF d(2)] obtain deadline start
    where f: "py_get date_dict ''application_deadline'' JNull = Inr deadline"
      "is_date_field deadline" by blast
  from parse_date_total [OF f(2), of strp] obtain r where "parse_date strp deadline = Inr r" ..
  then show ?thesis
    using d(1) f(1) by (simp add: days_until_deadline_def split: option.splits)
qed

lemma filter_expired_wf:
  assumes "list_all wf_opportunity opps"
  shows "filter_expired strp now opps
           = Inr (valid_of strp now opps, length opps - length (valid_of strp now opps))"
  using assms
proof (induction opps)
  case Nil
  then show ?case by (simp add: valid_of_def)
next
  case (Cons opp opps)
  then have wf: "wf_opportunity opp" and rest: "list_all wf_opportunity opps" by simp_all
  from is_expired_total [OF wf] obtain b where b: "is_expired strp opp now = Inr b" ..
  have le: "length (valid_of strp now opps) \<le> length opps"
    by (simp add: valid_of_def)
  show ?case
    using Cons.IH [OF rest] b le
    by (cases b) (simp_all add: valid_of_def Suc_diff_le)
qed

lemma valid_of_wf: "list_all wf_opportunity opps \<Longrightarrow> list_all wf_opportunity (valid_of strp now opps)"
  by (simp add: valid_of_def list_all_iff)

lemma try_map_total:
  assumes "\<forall>x\<in>set xs. \<exists>y. f x = Inr y \<and> P x y"
  shows "\<exists>ys. try_map f xs = Inr ys \<and> list_all2 P xs ys"
  using assms
proof (induction xs)
  case Nil
  then show ?case by simp
next
  case (Cons x xs)
  then obtain y ys where "f x = Inr y" "P x y" "try_map f xs = Inr ys" "list_all2 P xs ys"
    by auto
  then show ?case by simp
qed

lemma py_join_strings:
  assumes "list_all is_string items"
  shows "\<exists>s. py_join sep items = Inr s"
proof -
  have "\<forall>x\<in>set items. \<exists>y. string_of x = Inr y \<and> True"
  proof
    fix x assume "x \<in> set items"
    with assms have "is_string x" by (simp add: list_all_iff)
    then show "\<exists>y. string_of x = Inr y \<and> True" by (cases x) simp_all
  qed
  from try_map_total [OF this] obtain ss where "try_map string_of items = Inr ss" by blast
  then show ?thesis by (simp add: py_join_def)
qed

lemma location_parts_wf:
  assumes "wf_location loc"
  shows "\<exists>parts. location_parts loc = Inr parts \<and> list_all is_string parts"
proof -
  from assms obtain l where l: "loc = JObj l" by (cases loc) simp_all
  have s: "is_string v" if "is_optional_string v" "py_truthy v" for v
    using that by (cases v) simp_all
  show ?thesis
    using assms s unfolding l by (simp add: location_parts_def)
qed

lemma prepare_opportunity_text_wf:
  assumes "wf_opportunity opp"
  shows "prepare_opportunity_text opp = Inr ()"
proof -
  from assms obtain kvs where opp: "opp = JObj kvs" by (cases opp) simp_all
  from assms opp have wf: "wf_dates (dict_get kvs ''dates'' (JObj []))"
    "wf_location (dict_get kvs ''location'' (JObj []))"
    "is_dict (dict_get kvs ''compensation'' (JObj []))"
    "wf_keywords (dict_get kvs ''keywords_matched'' JNull)" by simp_all
  from wf(1) obtain d where d: "dict_get kvs ''dates'' (JObj []) = JObj d"
    by (cases "dict_get kvs ''dates'' (JObj [])") simp_all
  from wf(3) obtain c where c: "dict_get kvs ''compensation'' (JObj []) = JObj c"
    by (cases "dict_get kvs ''compensation'' (JObj [])") simp_all
  from location_parts_wf [OF wf(2)] obtain parts
    where parts: "location_parts (dict_get kvs ''location'' (JObj [])) = Inr parts"
      "list_all is_string parts" by blast
  from py_join_strings [OF parts(2)] obtain s where s: "py_join '', '' parts = Inr s" ..
  have kw: "(if py_truthy kw then then_do (py_iter kw) (\<lambda>items.
            then_do (py_join '', '' items) (\<lambda>_. Inr ())) else Inr ()) = Inr ()"
    if "wf_keywords kw" for kw
  proof (cases kw)
    case (JArr xs)
    with that have "list_all is_string xs" by simp
    from py_join_strings [OF this] obtain t where "py_join '', '' xs = Inr t" ..
    then show ?thesis using JArr by simp
  qed (use that in simp_all)
  show ?thesis
    unfolding opp prepare_opportunity_text_def
    by (simp add: d c parts s kw [OF wf(4)])
qed


subsection \<open>The lookup of scores and the ranked records\<close>

lemma dict_get_Nil: "dict_get [] k dflt = dflt"
  by (simp add: dict_get_def)

lemma dict_get_Cons: "dict_get (kv # kvs) k dflt = (if fst kv = k then snd kv else dict_get kvs k dflt)"
  by (cases kv) (simp add: dict_get_def)

lemma dict_set_keys: "fst ` set (dict_set k v kvs) = insert k (fst ` set kvs)"
  by (induction kvs) auto

lemma dict_set_values:
  "list_all (\<lambda>kv. P (snd kv)) kvs \<Longrightarrow> P v \<Longrightarrow> list_all (\<lambda>kv. P (snd kv)) (dict_set k v kvs)"
  by (induction kvs) auto

lemma wf_score_entry_id:
  assumes "wf_score_entry r"
  shows "\<exists>s. py_index r ''opportunity_id'' = Inr (JStr s)
           \<and> entry_field r ''opportunity_id'' JNull = JStr s"
proof -
  from assms obtain kvs where r: "r = JObj kvs" by (cases r) simp_all
  from assms r have "is_string (dict_get kvs ''opportunity_id'' JNull)" by simp
  then show ?thesis
    unfolding r
    by (cases "map_of kvs ''opportunity_id''") (auto simp: dict_get_def elim: is_string.elims)
qed

lemma ranking_lookup_wf:
  assumes "list_all wf_score_entry entries"
    and "list_all (\<lambda>kv. wf_score_entry (snd kv)) acc"
  shows "\<exists>lk. ranking_lookup acc entries = Inr lk
           \<and> list_all (\<lambda>kv. wf_score_entry (snd kv)) lk
           \<and> fst ` set lk = fst ` set acc \<union> set (scored_ids (JArr entries))"
  using assms
proof (induction entries arbitrary: acc)
  case Nil
  then show ?case by simp
next
  case (Cons r rs)
  then have r: "wf_score_entry r" and rs: "list_all wf_score_entry rs" by simp_all
  from wf_score_entry_id [OF r] obtain s
    where s: "py_index r ''opportunity_id'' = Inr (JStr s)"
      "entry_field r ''opportunity_id'' JNull = JStr s" by blast
  have acc': "list_all (\<lambda>kv. wf_score_entry (snd kv)) (dict_set (JStr s) r acc)"
    using Cons.prems(2) r by (rule dict_set_values)
  from Cons.IH [OF rs acc'] obtain lk
    where lk: "ranking_lookup (dict_set (JStr s) r acc) rs = Inr lk"
      "list_all (\<lambda>kv. wf_score_entry (snd kv)) lk"
      "fst ` set lk = fst ` set (dict_set (JStr s) r acc) \<union> set (scored_ids (JArr rs))"
    by blast
  show ?case
    using lk s by (auto simp: dict_set_keys)
qed

text \<open>What the merge needs of the scorer's entry for an opportunity.\<close>

lemma lookup_entry_shape:
  assumes "list_all (\<lambda>kv. wf_score_entry (snd kv)) lk"
  shows "\<exists>kvs. (case map_of lk key of Some r \<Rightarrow> r | None \<Rightarrow> JObj []) = JObj kvs
           \<and> is_score (dict_get kvs ''match_score'' (JNum (1 / 2)))
           \<and> (key \<notin> fst ` set lk \<longrightarrow> kvs = [])"
proof (cases "map_of lk key")
  case None
  then show ?thesis by (simp add: dict_get_def)
next
  case (Some r)
  then have "(key, r) \<in> set lk" by (rule map_of_SomeD)
  with assms have wf: "wf_score_entry r" by (auto simp: list_all_iff)
  then obtain kvs where r: "r = JObj kvs" by (cases r) simp_all
  have "key \<in> fst ` set lk" using \<open>(key, r) \<in> set lk\<close> by force
  then show ?thesis using Some wf r by simp
qed

lemma ranked_entry_wf:
  assumes "wf_opportunity opp"
    and "list_all (\<lambda>kv. wf_score_entry (snd kv)) lk"
  shows "\<exists>e. ranked_entry strp now lk opp = Inr e
           \<and> entry_field e ''opportunity_id'' JNull = entry_field opp ''id'' (JStr [])
           \<and> py_index e ''match_score'' = Inr (entry_field e ''match_score'' JNull)
           \<and> is_score (entry_field e ''match_score'' JNull)
           \<and> (entry_field opp ''id'' (JStr []) \<notin> fst ` set lk \<longrightarrow> unscored e)"
proof -
  from assms(1) obtain kvs where opp: "opp = JObj kvs" by (cases opp) simp_all
  from assms(1) opp have wf: "is_string (dict_get kvs ''id'' (JStr []))"
    "wf_dates (dict_get kvs ''dates'' (JObj []))"
    "wf_location (dict_get kvs ''location'' (JObj []))"
    "is_dict (dict_get kvs ''compensation'' (JObj []))"
    "is_dict (dict_get kvs ''application'' (JObj []))" by simp_all
  from wf(1) obtain i where i: "dict_get kvs ''id'' (JStr []) = JStr i"
    by (cases "dict_get kvs ''id'' (JStr [])") simp_all
  from wf(2) obtain d where d: "dict_get kvs ''dates'' (JObj []) = JObj d"
    by (cases "dict_get kvs ''dates'' (JObj [])") simp_all
  from wf(3) obtain l where l: "dict_get kvs ''location'' (JObj []) = JObj l"
    by (cases "dict_get kvs ''location'' (JObj [])") simp_all
  from wf(4) obtain c where c: "dict_get kvs ''compensation'' (JObj []) = JObj c"
    by (cases "dict_get kvs ''compensation'' (JObj [])") simp_all
  from wf(5) obtain a where a: "dict_get kvs ''application'' (JObj []) = JObj a"
    by (cases "dict_get kvs ''application'' (JObj [])") simp_all
  from location_parts_wf [OF wf(3)] l obtain parts
    where parts: "location_parts (JObj l) = Inr parts" "list_all is_string parts" by auto
  from py_join_strings [OF parts(2)] obtain s where s: "py_join '', '' parts = Inr s" ..
  from days_until_deadline_total [OF assms(1), of strp now] opp obtain days
    where days: "days_until_deadline strp (JObj kvs) now = Inr days" by auto
  from lookup_entry_shape [OF assms(2), of "JStr i"] obtain r
    where r: "(case map_of lk (JStr i) of Some r \<Rightarrow> r | None \<Rightarrow> JObj []) = JObj r"
      "is_score (dict_get r ''match_score'' (JNum (1 / 2)))"
      "JStr i \<notin> fst ` set lk \<longrightarrow> r = []" by blast
  have e: "ranked_entry strp now lk opp = Inr (JObj
         [(''opportunity_id'', JStr i),
          (''event_name'', dict_get kvs ''event_name'' (JStr ''Unknown Event'')),
          (''event_type'', dict_get kvs ''event_type'' JNull),
          (''description'', dict_get kvs ''description'' JNull),
          (''start_date'', dict_get d ''start_date'' JNull),
          (''end_date'', dict_get d ''end_date'' JNull),
          (''application_deadline'', dict_get d ''application_deadline'' JNull),
          (''location'', if parts \<noteq> [] then JStr s else JNull),
          (''is_virtual'', dict_get l ''is_virtual'' (JBool False)),
          (''is_paid'', dict_get c ''is_paid'' (JBool False)),
          (''compensation_amount'', dict_get c ''amount'' JNull),
          (''application_url'', dict_get a ''url'' JNull),
          (''source_url'', dict_get kvs ''source_url'' JNull),
          (''match_score'', dict_get r ''match_score'' (JNum (1 / 2))),
          (''relevance_score'', dict_get r ''relevance_score'' (JNum (1 / 2))),
          (''preference_score'', dict_get r ''preference_score'' (JNum (1 / 2))),
          (''match_reasons'', dict_get r ''match_reasons'' (JArr [])),
          (''matching_keywords'', dict_get r ''matching_keywords'' (JArr [])),
          (''is_expired'', JBool False),
          (''days_until_deadline'',
             (case days of None \<Rightarrow> JNull | Some n \<Rightarrow> JNum (of_int n)))])"
    unfolding opp ranked_entry_def
    by (simp add: i d l c a parts s days r(1))
  show ?thesis
    unfolding e using r(2,3) by (simp add: opp i dict_get_Cons dict_get_Nil unscored_def)
qed


subsection \<open>The descending stable sort\<close>

lemma try_map_pure:
  "\<forall>x\<in>set xs. f x = Inr (g x) \<Longrightarrow> try_map f xs = Inr (map g xs)"
  by (induction xs) simp_all

lemma stable_descending_mset: "mset (rev (sort_key f (rev xs))) = mset xs"
  by simp

lemma stable_descending_sorted:
  "sorted_wrt (\<lambda>a b. f b \<le> f a) (rev (sort_key f (rev xs)))"
proof -
  have "sorted (map f (sort_key f (rev xs)))"
    by (rule sorted_sort_key)
  then have "sorted_wrt (\<lambda>a b. f a \<le> f b) (sort_key f (rev xs))"
    by (simp add: sorted_wrt_map)
  then show ?thesis
    by (simp add: sorted_wrt_rev)
qed

lemma stable_descending_ties:
  "filter (\<lambda>x. f x = k) (rev (sort_key f (rev xs))) = filter (\<lambda>x. f x = k) xs"
proof -
  have "filter (\<lambda>x. f x = k) (rev (sort_key f (rev xs)))
          = rev (filter (\<lambda>x. f x = k) (sort_key f (rev xs)))"
    by (simp add: rev_filter)
  also have "\<dots> = rev (filter (\<lambda>x. f x = k) (rev xs))"
    by (simp add: sort_key_stable)
  also have "\<dots> = filter (\<lambda>x. f x = k) xs"
    by (simp add: rev_filter)
  finally show ?thesis .
qed

lemma is_score_number: "is_score v \<Longrightarrow> is_number v"
  by (cases v) simp_all

lemma sort_by_match_score_numbers:
  assumes "\<forall>e\<in>set es. py_index e ''match_score'' = Inr (entry_field e ''match_score'' JNull)
             \<and> is_score (entry_field e ''match_score'' JNull)"
  shows "sort_by_match_score es = Inr (rev (sort_key entry_score (rev es)))"
proof -
  have keys: "try_map (\<lambda>x. py_index x ''match_score'') es
      = Inr (map (\<lambda>e. entry_field e ''match_score'' JNull) es)"
    using assms by (intro try_map_pure) simp
  have nums: "list_all is_number (map (\<lambda>e. entry_field e ''match_score'' JNull) es)"
    using assms by (simp add: list_all_iff is_score_number)
  have short: "rev (sort_key entry_score (rev es)) = es" if "length es \<le> 1"
    using that by (cases es) simp_all
  show ?thesis
    using short by (simp add: sort_by_match_score_def keys nums)
qed

subsection \<open>The merge as a whole\<close>

lemma rank_opportunities_merge:
  assumes "list_all wf_opportunity opportunities"
    and "wf_scoring (scoring_response loads reply)"
  shows "\<exists>res entries.
      rank_opportunities strp loads now reply profile_summary opportunities = Inr res
    \<and> list_all2
        (\<lambda>opp e. entry_field e ''opportunity_id'' JNull = entry_field opp ''id'' (JStr [])
           \<and> (entry_field opp ''id'' (JStr []) \<notin> set (scored_ids (scoring_response loads reply))
                \<longrightarrow> unscored e))
        (valid_of strp now opportunities) entries
    \<and> mset (ranked_opportunities res) = mset entries
    \<and> length (ranked_opportunities res) = length (valid_of strp now opportunities)
    \<and> sorted_wrt (\<lambda>a b. entry_score b \<le> entry_score a) (ranked_opportunities res)
    \<and> (\<forall>k. filter (\<lambda>e. entry_score e = k) (ranked_opportunities res)
            = filter (\<lambda>e. entry_score e = k) entries)
    \<and> total_opportunities res = length opportunities
    \<and> valid_opportunities res = length (valid_of strp now opportunities)
    \<and> expired_opportunities res
        = length opportunities - length (valid_of strp now opportunities)"
proof -
  let ?valid = "valid_of strp now opportunities"
  let ?P = "\<lambda>opp e. entry_field e ''opportunity_id'' JNull = entry_field opp ''id'' (JStr [])
           \<and> (entry_field opp ''id'' (JStr []) \<notin> set (scored_ids (scoring_response loads reply))
                \<longrightarrow> unscored e)"
  have split: "filter_expired strp now opportunities
      = Inr (?valid, length opportunities - length ?valid)"
    using assms(1) by (rule filter_expired_wf)
  show ?thesis
  proof (cases "?valid = []")
    case True
    then have "rank_opportunities strp loads now reply profile_summary opportunities
        = Inr \<lparr>ranked_opportunities = [], total_opportunities = length opportunities,
               valid_opportunities = 0,
               expired_opportunities = length opportunities - length ?valid\<rparr>"
      by (simp add: rank_opportunities_def split)
    moreover have "list_all2 ?P ?valid []" using True by simp
    ultimately show ?thesis using True by force
  next
    case False
    have wfv: "list_all wf_opportunity ?valid"
      using assms(1) by (rule valid_of_wf)
    have "\<forall>opp\<in>set ?valid. prepare_opportunity_text opp = Inr ()"
      using wfv by (simp add: list_all_iff prepare_opportunity_text_wf)
    then have "try_map prepare_opportunity_text ?valid = Inr (map (\<lambda>_. ()) ?valid)"
      by (rule try_map_pure)
    then have ai: "rank_opportunities_with_ai loads reply profile_summary ?valid
        = Inr (scoring_response loads reply)"
      by (simp add: rank_opportunities_with_ai_def)
    from assms(2) obtain sc where sc: "scoring_response loads reply = JArr sc"
      "list_all wf_score_entry sc"
      by (cases "scoring_response loads reply") simp_all
    from ranking_lookup_wf [OF sc(2), of "[]"] obtain lk
      where lk: "ranking_lookup [] sc = Inr lk"
        "list_all (\<lambda>kv. wf_score_entry (snd kv)) lk"
        "fst ` set lk = set (scored_ids (JArr sc))" by auto
    let ?Q = "\<lambda>opp e. entry_field e ''opportunity_id'' JNull = entry_field opp ''id'' (JStr [])
           \<and> py_index e ''match_score'' = Inr (entry_field e ''match_score'' JNull)
           \<and> is_score (entry_field e ''match_score'' JNull)
           \<and> (entry_field opp ''id'' (JStr []) \<notin> fst ` set lk \<longrightarrow> unscored e)"
    have "\<forall>opp\<in>set ?valid. \<exists>e. ranked_entry strp now lk opp = Inr e \<and> ?Q opp e"
      using wfv ranked_entry_wf [OF _ lk(2)] by (simp add: list_all_iff)
    from try_map_total [OF this] obtain entries
      where entries: "try_map (ranked_entry strp now lk) ?valid = Inr entries"
        "list_all2 ?Q ?valid entries" by blast
    have corr: "list_all2 ?P ?valid entries"
      using entries(2) by (rule list_all2_mono) (simp add: lk(3) sc(1))
    have len: "length entries = length ?valid"
      using entries(2) by (simp add: list_all2_lengthD)
    have "\<forall>e\<in>set entries. py_index e ''match_score'' = Inr (entry_field e ''match_score'' JNull)
             \<and> is_score (entry_field e ''match_score'' JNull)"
      using entries(2) by (auto simp: list_all2_conv_all_nth in_set_conv_nth)
    then have sorted: "sort_by_match_score entries
        = Inr (rev (sort_key entry_score (rev entries)))"
      by (rule sort_by_match_score_numbers)
    have run: "rank_opportunities strp loads now reply profile_summary opportunities
        = Inr \<lparr>ranked_opportunities = rev (sort_key entry_score (rev entries)),
               total_opportunities = length opportunities,
               valid_opportunities = length ?valid,
               expired_opportunities = length opportunities - length ?valid\<rparr>"
      using False by (simp add: rank_opportunities_def split ai sc(1) lk(1) entries(1) sorted)
    show ?thesis
      unfolding run
      using corr len
      by (intro exI [of _ "\<lparr>ranked_opportunities = rev (sort_key entry_score (rev entries)),
               total_opportunities = length opportunities,
               valid_opportunities = length ?valid,
               expired_opportunities = length opportunities - length ?valid\<rparr>"]
          exI [of _ entries])
        (simp add: stable_descending_sorted stable_descending_ties)
  qed
qed

text \<open>
  C1. For every profile summary and every list of opportunities of the data model, with
  a scoring response of the expected shape (covering any part of the opportunities),
  \<^verbatim>\<open>rank_opportunities\<close> returns. Its ranked list holds exactly the records of the
  non-expired opportunities, one for each: the unsorted records \<open>entries\<close> correspond
  one to one, in input order, to the non-expired opportunities, and the ranked list is a
  permutation of them, as long as the list of non-expired opportunities. The ranked list
  is sorted by \<^verbatim>\<open>match_score\<close> in descending order and records with equal scores keep
  their input order. A non-expired opportunity whose identifier the scoring response
  does not cover gets the three scores 0.5 and empty reasons and keywords.
\<close>

theorem rank_opportunities_complete_and_sorted:
  assumes "list_all wf_opportunity opportunities"
    and "wf_scoring (scoring_response loads reply)"
  shows "\<exists>res entries.
      rank_opportunities strp loads now reply profile_summary opportunities = Inr res
    \<and> list_all2
        (\<lambda>opp e. entry_field e ''opportunity_id'' JNull = entry_field opp ''id'' (JStr [])
           \<and> (entry_field opp ''id'' (JStr []) \<notin> set (scored_ids (scoring_response loads reply))
                \<longrightarrow> unscored e))
        (valid_of strp now opportunities) entries
    \<and> mset (ranked_opportunities res) = mset entries
    \<and> length (ranked_opportunities res) = length (valid_of strp now opportunities)
    \<and> sorted_wrt (\<lambda>a b. entry_score b \<le> entry_score a) (ranked_opportunities res)
    \<and> (\<forall>k. filter (\<lambda>e. entry_score e = k) (ranked_opportunities res)
            = filter (\<lambda>e. entry_score e = k) entries)
    \<and> total_opportunities res = length opportunities
    \<and> valid_opportunities res = length (valid_of strp now opportunities)
    \<and> expired_opportunities res
        = length opportunities - length (valid_of strp now opportunities)"
  using assms by (rule rank_opportunities_merge)

lemma sample_valid: "valid_of sample_strptime sample_now [conf_a, conf_b, conf_c] = [conf_a, conf_c]"
  by (simp add: valid_of_def is_expired_def parse_date_def formats_def sample_strptime_def
      sample_now_def conf_a_def conf_b_def conf_c_def dict_get_def)

theorem rank_opportunities_complete_and_sorted_witness:
  \<open>list_all wf_opportunity [conf_a, conf_b, conf_c]
   \<and> wf_scoring (scoring_response sample_loads
        (Some ''[{"opportunity_id": "c", "match_score": 0.75}]''))
   \<and> (\<exists>res. rank_opportunities sample_strptime sample_loads sample_now
          (Some ''[{"opportunity_id": "c", "match_score": 0.75}]'') ''profile''
          [conf_a, conf_b, conf_c] = Inr res
        \<and> length (ranked_opportunities res) = 2
        \<and> sorted_wrt (\<lambda>a b. entry_score b \<le> entry_score a) (ranked_opportunities res)
        \<and> total_opportunities res = 3
        \<and> valid_opportunities res = 2
        \<and> expired_opportunities res = 1)\<close>
proof -
  have h1: "list_all wf_opportunity [conf_a, conf_b, conf_c]"
    by (simp add: conf_a_def conf_b_def conf_c_def dict_get_def)
  have h2: \<open>wf_scoring (scoring_response sample_loads
        (Some ''[{"opportunity_id": "c", "match_score": 0.75}]''))\<close>
    by (simp add: scoring_response_def sample_loads_def dict_get_def)
  from rank_opportunities_complete_and_sorted
    [OF h1 h2, of sample_strptime sample_now "''profile''"]
  show ?thesis
    using h1 h2 by (auto simp: sample_valid)
qed

text \<open>
  On the same input the ranked list is \<^verbatim>\<open>Conf C\<close> with its score 0.75, then \<^verbatim>\<open>Conf A\<close>
  with the default 0.5; \<^verbatim>\<open>Conf B\<close> is counted as expired.
\<close>

lemma rank_opportunities_example:
  \<open>\<exists>res. rank_opportunities sample_strptime sample_loads sample_now
          (Some ''[{"opportunity_id": "c", "match_score": 0.75}]'') ''profile''
          [conf_a, conf_b, conf_c] = Inr res
     \<and> map (\<lambda>e. (entry_field e ''opportunity_id'' JNull, entry_field e ''match_score'' JNull))
          (ranked_opportunities res) = [(JStr ''c'', JNum (3 / 4)), (JStr ''a'', JNum (1 / 2))]
     \<and> expired_opportunities res = 1\<close>
  by (simp add: rank_opportunities_def is_expired_def parse_date_def formats_def
      sample_strptime_def sample_now_def conf_a_def conf_b_def conf_c_def dict_get_def
      rank_opportunities_with_ai_def prepare_opportunity_text_def location_parts_def
      py_join_def scoring_response_def sample_loads_def ranked_entry_def
      days_until_deadline_def sort_by_match_score_def entry_score_def)

text \<open>
  When the scoring call fails outright the response is the empty list, and every
  non-expired opportunity of the data model is ranked with the defaults.
\<close>

lemma rank_opportunities_scorer_down:
  assumes "list_all wf_opportunity opportunities"
  shows "\<exists>res. rank_opportunities strp loads now None profile_summary opportunities = Inr res
           \<and> length (ranked_opportunities res) = length (valid_of strp now opportunities)
           \<and> list_all unscored (ranked_opportunities res)"
proof -
  have none: "scoring_response loads None = JArr []"
    by (simp add: scoring_response_def)
  then have "wf_scoring (scoring_response loads None)" by simp
  from rank_opportunities_merge [OF assms this, of strp now profile_summary]
  obtain res entries
    where res: "rank_opportunities strp loads now None profile_summary opportunities = Inr res"
      and corr0: "list_all2
        (\<lambda>opp e. entry_field e ''opportunity_id'' JNull = entry_field opp ''id'' (JStr [])
           \<and> (entry_field opp ''id'' (JStr []) \<notin> set (scored_ids (scoring_response loads None))
                \<longrightarrow> unscored e))
        (valid_of strp now opportunities) entries"
      and perm: "mset (ranked_opportunities res) = mset entries"
      and len: "length (ranked_opportunities res) = length (valid_of strp now opportunities)"
    by blast
  have corr: "list_all2 (\<lambda>opp e. unscored e) (valid_of strp now opportunities) entries"
    using corr0 by (rule list_all2_mono) (simp add: none)
  from corr have "\<forall>e\<in>set entries. unscored e"
    by (auto simp: list_all2_conv_all_nth in_set_conv_nth)
  moreover from perm have "set (ranked_opportunities res) = set entries"
    by (rule mset_eq_setD)
  ultimately have "list_all unscored (ranked_opportunities res)"
    by (simp add: list_all_iff)
  with res len show ?thesis by blast
qed

text \<open>
  C2. The claim is that \<^verbatim>\<open>rank_opportunities\<close> does not raise whatever the scorer
  returns. The comprehension that builds the lookup reads \<^verbatim>\<open>r["opportunity_id"]\<close> of every
  entry outside any \<^verbatim>\<open>try\<close>: an entry without the field raises KeyError, and an entry that
  is not a dictionary raises TypeError.
\<close>

theorem rank_opportunities_raises_on_malformed_entry:
  \<open>rank_opportunities sample_strptime sample_loads sample_now
      (Some ''[{"match_score": 0.75}]'') ''profile'' [conf_a] = Inl KeyError
   \<and> rank_opportunities sample_strptime sample_loads sample_now
      (Some ''["a"]'') ''profile'' [conf_a] = Inl TypeError\<close>
  by (simp add: rank_opportunities_def is_expired_def parse_date_def formats_def
      sample_strptime_def sample_now_def conf_a_def dict_get_def
      rank_opportunities_with_ai_def prepare_opportunity_text_def location_parts_def
      scoring_response_def sample_loads_def)

section \<open>Properties of the schema normalizer\<close>

subsection \<open>Defaults and lookups\<close>

lemma then_do_eq_Inr: "then_do m f = Inr y \<longleftrightarrow> (\<exists>x. m = Inr x \<and> f x = Inr y)"
  by (cases m) simp_all

lemma map_of_dict_set: "map_of (dict_set k v kvs) k' = (if k' = k then Some v else map_of kvs k')"
  by (induction kvs) auto

lemma dict_get_dict_set:
  "dict_get (dict_set k v kvs) k' dflt = (if k' = k then v else dict_get kvs k' dflt)"
  by (simp add: dict_get_def map_of_dict_set)

lemma map_of_default_none_other:
  "k' \<noteq> k \<Longrightarrow> map_of (default_none k v data) k' = map_of data k'"
  by (simp add: default_none_def map_of_dict_set)

lemma map_of_default_none_same:
  "map_of (default_none k v data) k
     = (if field_null data k then Some v else map_of data k)"
  by (simp add: default_none_def field_null_def map_of_dict_set)

lemma field_null_map_of:
  "\<not> field_null data k \<Longrightarrow> map_of data k = Some (dict_get data k JNull)"
  by (cases "map_of data k") (simp_all add: field_null_def dict_get_def)

lemma dict_get_default_none_other:
  "k' \<noteq> k \<Longrightarrow> dict_get (default_none k v data) k' dflt = dict_get data k' dflt"
  by (simp add: dict_get_def map_of_default_none_other)

lemma field_null_default_none_other:
  "k' \<noteq> k \<Longrightarrow> field_null (default_none k v data) k' = field_null data k'"
  by (simp add: field_null_def dict_get_default_none_other)

lemma has_key_default_none_other:
  "k' \<noteq> k \<Longrightarrow> has_key (default_none k v data) k' = has_key data k'"
  by (simp add: has_key_def map_of_default_none_other)

lemma optional_field_default_none_other:
  "k' \<noteq> k \<Longrightarrow> optional_field val dflt (default_none k v data) k' = optional_field val dflt data k'"
  by (simp add: optional_field_def map_of_default_none_other)

lemma required_field_default_none_other:
  "k' \<noteq> k \<Longrightarrow> required_field val (default_none k v data) k' = required_field val data k'"
  by (simp add: required_field_def map_of_default_none_other)

text \<open>After the default has been put in, the field is validated: it is never \<open>None\<close>.\<close>

lemma optional_field_default_none_same:
  assumes "v \<noteq> JNull"
  shows "optional_field val dflt (default_none k v data) k
           = then_do (val (if field_null data k then v else dict_get data k JNull))
               (\<lambda>a. Inr (Some a))"
proof (cases "field_null data k")
  case True
  then show ?thesis
    using assms by (simp add: optional_field_def validate_optional_def map_of_default_none_same)
next
  case False
  then have "dict_get data k JNull \<noteq> JNull" by (simp add: field_null_def)
  then show ?thesis
    using False field_null_map_of [OF False]
    by (simp add: optional_field_def validate_optional_def map_of_default_none_same)
qed

lemmas default_none_simps =
  optional_field_default_none_other required_field_default_none_other
  optional_field_default_none_same field_null_default_none_other
  dict_get_default_none_other has_key_default_none_other

subsection \<open>The nested models\<close>

lemma location_init_props:
  assumes "location_init C d = Inr l"
  shows "location_non_null l
         \<and> (field_null d ''is_virtual'' \<longrightarrow> is_virtual l = Some False)
         \<and> (field_null d ''has_virtual_option'' \<longrightarrow> has_virtual_option l = Some False)"
  using assms
  by (auto simp: location_init_def Let_def default_none_simps then_do_eq_Inr
      location_non_null_def split: if_splits)

lemma compensation_init_props:
  assumes "compensation_init C d = Inr c"
  shows "compensation_non_null c \<and> compensation_type c \<noteq> None
         \<and> (field_null d ''is_paid'' \<longrightarrow> is_paid c = Some False)
         \<and> (field_null d ''includes_travel'' \<longrightarrow> includes_travel c = Some False)
         \<and> (field_null d ''includes_accommodation'' \<longrightarrow> includes_accommodation c = Some False)"
  using assms
  by (auto simp: compensation_init_def Let_def default_none_simps then_do_eq_Inr
      compensation_non_null_def split: if_splits)

lemma application_info_init_props:
  assumes "application_info_init d = Inr a"
  shows "application_non_null a \<and> (field_null d ''requirements'' \<longrightarrow> requirements a = Some [])"
  using assms
  by (auto simp: application_info_init_def Let_def default_none_simps then_do_eq_Inr
      application_non_null_def split: if_splits)

lemma field_null_Nil: "field_null [] k"
  by (simp add: field_null_def dict_get_def)

lemma optional_field_Nil: "optional_field val dflt [] k = Inr dflt"
  by (simp add: optional_field_def)

lemma validate_date_info_empty: "validate_date_info (JObj []) = Inr default_date_info"
  by (simp add: optional_field_def default_date_info_def)

lemma location_init_empty: "location_init C [] = Inr default_location"
  by (simp add: location_init_def Let_def default_none_simps field_null_Nil has_key_def
      default_location_def optional_field_Nil)

lemma compensation_type_find:
  "find (\<lambda>t. compensation_type_value t = compensation_type_value x) compensation_types = Some x"
  by (cases x) (simp_all add: compensation_types_def)

lemma opportunity_type_find:
  "find (\<lambda>t. opportunity_type_value t = opportunity_type_value x) opportunity_types = Some x"
  by (cases x) (simp_all add: opportunity_types_def)

lemma validate_compensation_type_value:
  "validate_compensation_type C (JStr (compensation_type_value x)) = Inr x"
  by (simp add: validate_compensation_type_def compensation_type_find)

lemma validate_event_type_value:
  "validate_event_type C (JStr (opportunity_type_value x)) = Inr x"
  by (simp add: validate_event_type_def opportunity_type_find)

lemma validate_compensation_type_unknown:
  "validate_compensation_type C (JStr ''unknown'') = Inr UNKNOWN"
  using validate_compensation_type_value [of C UNKNOWN] by simp

lemma validate_event_type_other: "validate_event_type C (JStr ''other'') = Inr OTHER"
  using validate_event_type_value [of C OTHER] by simp

lemma compensation_init_empty: "compensation_init C [] = Inr default_compensation"
  by (simp add: compensation_init_def Let_def default_none_simps field_null_Nil has_key_def
      default_compensation_def optional_field_Nil validate_compensation_type_unknown)

lemma application_info_init_empty: "application_info_init [] = Inr default_application_info"
  by (simp add: application_info_init_def Let_def default_none_simps field_null_Nil has_key_def
      default_application_info_def optional_field_Nil)


subsection \<open>The fields of a constructed opportunity\<close>

text \<open>\<^verbatim>\<open>Opportunity.__init__\<close> with the eight defaults moved to the fields they concern.\<close>

lemma opportunity_init_unfold:
  "opportunity_init C data =
     (if has_key data ''self'' then Inl TypeError
      else
        then_do (required_field validate_str data ''id'') (\<lambda>i.
        then_do (required_field validate_str data ''event_name'') (\<lambda>en.
        then_do (then_do (validate_event_type C
            (if field_null data ''event_type'' then JStr ''other''
             else dict_get data ''event_type'' JNull)) (\<lambda>a. Inr (Some a))) (\<lambda>et.
        then_do (optional_field validate_str None data ''description'') (\<lambda>de.
        then_do (then_do (validate_date_info
            (if field_null data ''dates'' then JObj [] else dict_get data ''dates'' JNull))
            (\<lambda>a. Inr (Some a))) (\<lambda>da.
        then_do (then_do (validate_location C
            (if field_null data ''location'' then JObj [] else dict_get data ''location'' JNull))
            (\<lambda>a. Inr (Some a))) (\<lambda>lo.
        then_do (then_do (validate_compensation C
            (if field_null data ''compensation'' then JObj []
             else dict_get data ''compensation'' JNull)) (\<lambda>a. Inr (Some a))) (\<lambda>co.
        then_do (then_do (validate_application_info
            (if field_null data ''application'' then JObj []
             else dict_get data ''application'' JNull)) (\<lambda>a. Inr (Some a))) (\<lambda>ap.
        then_do (then_do (validate_str_list
            (if field_null data ''target_audience'' then JArr []
             else dict_get data ''target_audience'' JNull)) (\<lambda>a. Inr (Some a))) (\<lambda>ta.
        then_do (optional_field validate_str None data ''expected_audience_size'') (\<lambda>ea.
        then_do (then_do (validate_str_list
            (if field_null data ''keywords_matched'' then JArr []
             else dict_get data ''keywords_matched'' JNull)) (\<lambda>a. Inr (Some a))) (\<lambda>km.
        then_do (optional_field validate_str None data ''source_url'') (\<lambda>su.
        then_do (then_do (validate_confidence C
            (if field_null data ''confidence_score'' then JNum (1 / 2)
             else dict_get data ''confidence_score'' JNull)) (\<lambda>a. Inr (Some a))) (\<lambda>cs.
          Inr \<lparr>opp_id = i, event_name = en, event_type = et, description = de, dates = da,
               location = lo, compensation = co, application = ap, target_audience = ta,
               expected_audience_size = ea, keywords_matched = km, source_url = su,
               confidence_score = cs\<rparr>))))))))))))))"
  unfolding opportunity_init_def opportunity_defaults_def Let_def
  by (simp only: default_none_simps json.distinct list.inject char.inject simp_thms
      if_False if_True opportunity_type_value.simps)


lemma opportunity_init_fields:
  assumes "opportunity_init C data = Inr opp"
  shows "\<not> has_key data ''self''"
    and "required_field validate_str data ''id'' = Inr (opp_id opp)"
    and "required_field validate_str data ''event_name'' = Inr (event_name opp)"
    and "\<exists>a. validate_event_type C
            (if field_null data ''event_type'' then JStr ''other''
             else dict_get data ''event_type'' JNull) = Inr a \<and> event_type opp = Some a"
    and "\<exists>a. validate_date_info
            (if field_null data ''dates'' then JObj [] else dict_get data ''dates'' JNull)
          = Inr a \<and> dates opp = Some a"
    and "\<exists>a. validate_location C
            (if field_null data ''location'' then JObj [] else dict_get data ''location'' JNull)
          = Inr a \<and> location opp = Some a"
    and "\<exists>a. validate_compensation C
            (if field_null data ''compensation'' then JObj []
             else dict_get data ''compensation'' JNull) = Inr a \<and> compensation opp = Some a"
    and "\<exists>a. validate_application_info
            (if field_null data ''application'' then JObj []
             else dict_get data ''application'' JNull) = Inr a \<and> application opp = Some a"
    and "\<exists>a. validate_str_list
            (if field_null data ''target_audience'' then JArr []
             else dict_get data ''target_audience'' JNull) = Inr a
          \<and> target_audience opp = Some a"
    and "\<exists>a. validate_str_list
            (if field_null data ''keywords_matched'' then JArr []
             else dict_get data ''keywords_matched'' JNull) = Inr a
          \<and> keywords_matched opp = Some a"
    and "\<exists>a. validate_confidence C
            (if field_null data ''confidence_score'' then JNum (1 / 2)
             else dict_get data ''confidence_score'' JNull) = Inr a
          \<and> confidence_score opp = Some a"
proof -
  show nk: "\<not> has_key data ''self''"
    using assms by (auto simp: opportunity_init_def)
  have run: "\<exists>i en et de da lo co ap ta ea km su cs.
      required_field validate_str data ''id'' = Inr i
    \<and> required_field validate_str data ''event_name'' = Inr en
    \<and> validate_event_type C
            (if field_null data ''event_type'' then JStr ''other''
             else dict_get data ''event_type'' JNull) = Inr et
    \<and> optional_field validate_str None data ''description'' = Inr de
    \<and> validate_date_info
            (if field_null data ''dates'' then JObj [] else dict_get data ''dates'' JNull)
          = Inr da
    \<and> validate_location C
            (if field_null data ''location'' then JObj [] else dict_get data ''location'' JNull)
          = Inr lo
    \<and> validate_compensation C
            (if field_null data ''compensation'' then JObj []
             else dict_get data ''compensation'' JNull) = Inr co
    \<and> validate_application_info
            (if field_null data ''application'' then JObj []
             else dict_get data ''application'' JNull) = Inr ap
    \<and> validate_str_list
            (if field_null data ''target_audience'' then JArr []
             else dict_get data ''target_audience'' JNull) = Inr ta
    \<and> optional_field validate_str None data ''expected_audience_size'' = Inr ea
    \<and> validate_str_list
            (if field_null data ''keywords_matched'' then JArr []
             else dict_get data ''keywords_matched'' JNull) = Inr km
    \<and> optional_field validate_str None data ''source_url'' = Inr su
    \<and> validate_confidence C
            (if field_null data ''confidence_score'' then JNum (1 / 2)
             else dict_get data ''confidence_score'' JNull) = Inr cs
    \<and> opp = \<lparr>opp_id = i, event_name = en, event_type = Some et, description = de,
               dates = Some da, location = Some lo, compensation = Some co,
               application = Some ap, target_audience = Some ta,
               expected_audience_size = ea, keywords_matched = Some km, source_url = su,
               confidence_score = Some cs\<rparr>"
    using assms nk unfolding opportunity_init_unfold
    by (simp only: if_False then_do_eq_Inr sum.inject) blast
  then obtain i en et de da lo co ap ta ea km su cs where
      f: "required_field validate_str data ''id'' = Inr i"
      "required_field validate_str data ''event_name'' = Inr en"
      "validate_event_type C
            (if field_null data ''event_type'' then JStr ''other''
             else dict_get data ''event_type'' JNull) = Inr et"
      "validate_date_info
            (if field_null data ''dates'' then JObj [] else dict_get data ''dates'' JNull)
          = Inr da"
      "validate_location C
            (if field_null data ''location'' then JObj [] else dict_get data ''location'' JNull)
          = Inr lo"
      "validate_compensation C
            (if field_null data ''compensation'' then JObj []
             else dict_get data ''compensation'' JNull) = Inr co"
      "validate_application_info
            (if field_null data ''application'' then JObj []
             else dict_get data ''application'' JNull) = Inr ap"
      "validate_str_list
            (if field_null data ''target_audience'' then JArr []
             else dict_get data ''target_audience'' JNull) = Inr ta"
      "validate_str_list
            (if field_null data ''keywords_matched'' then JArr []
             else dict_get data ''keywords_matched'' JNull) = Inr km"
      "validate_confidence C
            (if field_null data ''confidence_score'' then JNum (1 / 2)
             else dict_get data ''confidence_score'' JNull) = Inr cs"
    and opp: "opp = \<lparr>opp_id = i, event_name = en, event_type = Some et, description = de,
               dates = Some da, location = Some lo, compensation = Some co,
               application = Some ap, target_audience = Some ta,
               expected_audience_size = ea, keywords_matched = Some km, source_url = su,
               confidence_score = Some cs\<rparr>"
    by blast
  show "required_field validate_str data ''id'' = Inr (opp_id opp)"
    using f(1) by (simp add: opp)
  show "required_field validate_str data ''event_name'' = Inr (event_name opp)"
    using f(2) by (simp add: opp)
  show "\<exists>a. validate_event_type C
            (if field_null data ''event_type'' then JStr ''other''
             else dict_get data ''event_type'' JNull) = Inr a \<and> event_type opp = Some a"
    using f(3) by (simp add: opp)
  show "\<exists>a. validate_date_info
            (if field_null data ''dates'' then JObj [] else dict_get data ''dates'' JNull)
          = Inr a \<and> dates opp = Some a"
    using f(4) by (simp add: opp)
  show "\<exists>a. validate_location C
            (if field_null data ''location'' then JObj [] else dict_get data ''location'' JNull)
          = Inr a \<and> location opp = Some a"
    using f(5) by (simp add: opp)
  show "\<exists>a. validate_compensation C
            (if field_null data ''compensation'' then JObj []
             else dict_get data ''compensation'' JNull) = Inr a \<and> compensation opp = Some a"
    using f(6) by (simp add: opp)
  show "\<exists>a. validate_application_info
            (if field_null data ''application'' then JObj []
             else dict_get data ''application'' JNull) = Inr a \<and> application opp = Some a"
    using f(7) by (simp add: opp)
  show "\<exists>a. validate_str_list
            (if field_null data ''target_audience'' then JArr []
             else dict_get data ''target_audience'' JNull) = Inr a
          \<and> target_audience opp = Some a"
    using f(8) by (simp add: opp)
  show "\<exists>a. validate_str_list
            (if field_null data ''keywords_matched'' then JArr []
             else dict_get data ''keywords_matched'' JNull) = Inr a
          \<and> keywords_matched opp = Some a"
    using f(9) by (simp add: opp)
  show "\<exists>a. validate_confidence C
            (if field_null data ''confidence_score'' then JNum (1 / 2)
             else dict_get data ''confidence_score'' JNull) = Inr a
          \<and> confidence_score opp = Some a"
    using f(10) by (simp add: opp)
qed


lemma nested_value:
  "(if field_null data k then JObj [] else dict_get data k JNull) = JObj d
     \<Longrightarrow> sub_record data k = d"
  by (auto simp: field_null_def sub_record_def split: if_splits)

lemma validate_location_init:
  "validate_location C v = Inr l \<Longrightarrow> \<exists>d. v = JObj d \<and> location_init C d = Inr l"
  by (cases v) simp_all

lemma validate_compensation_init:
  "validate_compensation C v = Inr c \<Longrightarrow> \<exists>d. v = JObj d \<and> compensation_init C d = Inr c"
  by (cases v) simp_all

lemma validate_application_info_init:
  "validate_application_info v = Inr a \<Longrightarrow> \<exists>d. v = JObj d \<and> application_info_init d = Inr a"
  by (cases v) simp_all

lemma opportunity_init_location:
  assumes "opportunity_init C data = Inr opp"
  shows "\<exists>l. location opp = Some l \<and> location_init C (sub_record data ''location'') = Inr l"
proof -
  from opportunity_init_fields(6) [OF assms] obtain l
    where l: "validate_location C
        (if field_null data ''location'' then JObj [] else dict_get data ''location'' JNull)
        = Inr l" "location opp = Some l" by blast
  from validate_location_init [OF l(1)] obtain d
    where d: "(if field_null data ''location'' then JObj []
               else dict_get data ''location'' JNull) = JObj d"
      "location_init C d = Inr l" by blast
  from nested_value [OF d(1)] d(2) l(2) show ?thesis by simp
qed

lemma opportunity_init_compensation:
  assumes "opportunity_init C data = Inr opp"
  shows "\<exists>c. compensation opp = Some c
           \<and> compensation_init C (sub_record data ''compensation'') = Inr c"
proof -
  from opportunity_init_fields(7) [OF assms] obtain c
    where c: "validate_compensation C
        (if field_null data ''compensation'' then JObj []
         else dict_get data ''compensation'' JNull) = Inr c" "compensation opp = Some c"
    by blast
  from validate_compensation_init [OF c(1)] obtain d
    where d: "(if field_null data ''compensation'' then JObj []
               else dict_get data ''compensation'' JNull) = JObj d"
      "compensation_init C d = Inr c" by blast
  from nested_value [OF d(1)] d(2) c(2) show ?thesis by simp
qed

lemma opportunity_init_application:
  assumes "opportunity_init C data = Inr opp"
  shows "\<exists>a. application opp = Some a
           \<and> application_info_init (sub_record data ''application'') = Inr a"
proof -
  from opportunity_init_fields(8) [OF assms] obtain a
    where a: "validate_application_info
        (if field_null data ''application'' then JObj []
         else dict_get data ''application'' JNull) = Inr a" "application opp = Some a"
    by blast
  from validate_application_info_init [OF a(1)] obtain d
    where d: "(if field_null data ''application'' then JObj []
               else dict_get data ''application'' JNull) = JObj d"
      "application_info_init d = Inr a" by blast
  from nested_value [OF d(1)] d(2) a(2) show ?thesis by simp
qed

lemma sub_record_null: "field_null data k \<Longrightarrow> sub_record data k = []"
  by (simp add: field_null_def sub_record_def)

lemma opportunity_init_non_null_aux:
  assumes "opportunity_init C data = Inr opp"
  shows "non_null opp"
proof -
  from opportunity_init_location [OF assms] obtain l
    where l: "location opp = Some l" "location_init C (sub_record data ''location'') = Inr l"
    by blast
  from opportunity_init_compensation [OF assms] obtain c
    where c: "compensation opp = Some c"
      "compensation_init C (sub_record data ''compensation'') = Inr c" by blast
  from opportunity_init_application [OF assms] obtain a
    where a: "application opp = Some a"
      "application_info_init (sub_record data ''application'') = Inr a" by blast
  show ?thesis
    using opportunity_init_fields(5,9,10) [OF assms] l(1) c(1) a(1)
      location_init_props [OF l(2)] compensation_init_props [OF c(2)]
      application_info_init_props [OF a(2)]
    by (auto simp: non_null_def)
qed

text \<open>
  C5. A successfully constructed \<^verbatim>\<open>Opportunity\<close> holds, for each of \<^verbatim>\<open>dates\<close>,
  \<^verbatim>\<open>location\<close>, \<^verbatim>\<open>compensation\<close> and \<^verbatim>\<open>application\<close> that is null or absent in the
  raw record, the zero-value structure of that sub-record; a null or absent list field is
  the empty list; a null or absent boolean of a sub-record is false. In every
  constructed opportunity no nested sub-record, list or boolean is \<^verbatim>\<open>None\<close>.
\<close>

theorem opportunity_init_materializes_defaults:
  assumes "opportunity_init C data = Inr opp"
  shows "(field_null data ''dates'' \<longrightarrow> dates opp = Some default_date_info)
       \<and> (field_null data ''location'' \<longrightarrow> location opp = Some default_location)
       \<and> (field_null data ''compensation'' \<longrightarrow> compensation opp = Some default_compensation)
       \<and> (field_null data ''application'' \<longrightarrow> application opp = Some default_application_info)
       \<and> (field_null data ''target_audience'' \<longrightarrow> target_audience opp = Some [])
       \<and> (field_null data ''keywords_matched'' \<longrightarrow> keywords_matched opp = Some [])
       \<and> (\<exists>l. location opp = Some l
            \<and> (field_null (sub_record data ''location'') ''is_virtual''
                 \<longrightarrow> is_virtual l = Some False)
            \<and> (field_null (sub_record data ''location'') ''has_virtual_option''
                 \<longrightarrow> has_virtual_option l = Some False))
       \<and> (\<exists>c. compensation opp = Some c
            \<and> (field_null (sub_record data ''compensation'') ''is_paid''
                 \<longrightarrow> is_paid c = Some False)
            \<and> (field_null (sub_record data ''compensation'') ''includes_travel''
                 \<longrightarrow> includes_travel c = Some False)
            \<and> (field_null (sub_record data ''compensation'') ''includes_accommodation''
                 \<longrightarrow> includes_accommodation c = Some False))
       \<and> (\<exists>a. application opp = Some a
            \<and> (field_null (sub_record data ''application'') ''requirements''
                 \<longrightarrow> requirements a = Some []))
       \<and> non_null opp"
proof -
  from opportunity_init_location [OF assms] obtain l
    where l: "location opp = Some l" "location_init C (sub_record data ''location'') = Inr l"
    by blast
  from opportunity_init_compensation [OF assms] obtain c
    where c: "compensation opp = Some c"
      "compensation_init C (sub_record data ''compensation'') = Inr c" by blast
  from opportunity_init_application [OF assms] obtain a
    where a: "application opp = Some a"
      "application_info_init (sub_record data ''application'') = Inr a" by blast
  have d1: "field_null data ''dates'' \<longrightarrow> dates opp = Some default_date_info"
    using opportunity_init_fields(5) [OF assms]
    by (auto simp: optional_field_Nil default_date_info_def)
  have d2: "field_null data ''location'' \<longrightarrow> location opp = Some default_location"
    using l by (auto simp: sub_record_null location_init_empty)
  have d3: "field_null data ''compensation'' \<longrightarrow> compensation opp = Some default_compensation"
    using c by (auto simp: sub_record_null compensation_init_empty)
  have d4: "field_null data ''application'' \<longrightarrow> application opp = Some default_application_info"
    using a by (auto simp: sub_record_null application_info_init_empty)
  have d5: "field_null data ''target_audience'' \<longrightarrow> target_audience opp = Some []"
    using opportunity_init_fields(9) [OF assms] by auto
  have d6: "field_null data ''keywords_matched'' \<longrightarrow> keywords_matched opp = Some []"
    using opportunity_init_fields(10) [OF assms] by auto
  have d7: "non_null opp"
    using assms by (rule opportunity_init_non_null_aux)
  show ?thesis
    using d1 d2 d3 d4 d5 d6 d7 l(1) c(1) a(1)
      location_init_props [OF l(2)] compensation_init_props [OF c(2)]
      application_info_init_props [OF a(2)]
    by simp
qed


text \<open>Evaluating the validation of an explicit record.\<close>

lemma optional_field_Cons:
  "optional_field val dflt (kv # data) k
     = (if fst kv = k then validate_optional val (snd kv) else optional_field val dflt data k)"
  by (cases kv) (simp add: optional_field_def)

lemma required_field_Cons:
  "required_field val (kv # data) k
     = (if fst kv = k then val (snd kv) else required_field val data k)"
  by (cases kv) (simp add: required_field_def)

lemma has_key_Cons: "has_key (kv # data) k = (fst kv = k \<or> has_key data k)"
  by (cases kv) (simp add: has_key_def)

lemma has_key_Nil: "\<not> has_key [] k"
  by (simp add: has_key_def)

lemmas record_eval =
  dict_get_Nil dict_get_Cons optional_field_Cons optional_field_Nil required_field_Cons
  has_key_Cons has_key_Nil field_null_def

lemma compensation_init_sample:
  "compensation_init C [(''is_paid'', JNull)] = Inr default_compensation"
  by (simp add: compensation_init_def Let_def default_none_simps record_eval
      default_compensation_def validate_compensation_type_unknown validate_optional_def)

lemma sample_opportunity_init: "opportunity_init C sample_raw = Inr sample_opportunity"
  unfolding opportunity_init_unfold sample_raw_def sample_opportunity_def
  by (simp add: record_eval validate_optional_def validate_event_type_other
      compensation_init_sample location_init_empty application_info_init_empty
      validate_confidence_def default_date_info_def)

theorem opportunity_init_materializes_defaults_witness:
  "opportunity_init no_coercion sample_raw = Inr sample_opportunity
   \<and> field_null sample_raw ''location''
   \<and> field_null (sub_record sample_raw ''compensation'') ''is_paid''
   \<and> location sample_opportunity = Some default_location
   \<and> (\<exists>c. compensation sample_opportunity = Some c \<and> is_paid c = Some False)
   \<and> non_null sample_opportunity"
proof -
  have h: "opportunity_init no_coercion sample_raw = Inr sample_opportunity"
    by (rule sample_opportunity_init)
  have n1: "field_null sample_raw ''location''"
    by (simp add: sample_raw_def record_eval)
  have n2: "field_null (sub_record sample_raw ''compensation'') ''is_paid''"
    by (simp add: sample_raw_def sub_record_def record_eval)
  from opportunity_init_materializes_defaults [OF h] n1 n2 h
  show ?thesis by blast
qed

subsection \<open>The confidence score\<close>

lemma dict_get_fix_record_other:
  "k \<noteq> ''id'' \<Longrightarrow> k \<noteq> ''keywords_matched''
     \<Longrightarrow> dict_get (fix_record token keywords raw) k dflt = dict_get raw k dflt"
  by (simp add: fix_record_def Let_def dict_get_dict_set)

lemma field_null_fix_record_other:
  "k \<noteq> ''id'' \<Longrightarrow> k \<noteq> ''keywords_matched''
     \<Longrightarrow> field_null (fix_record token keywords raw) k = field_null raw k"
  by (simp add: field_null_def dict_get_fix_record_other)

lemma fix_record_id: "py_truthy (dict_get (fix_record token keywords raw) ''id'' JNull)"
  by (simp add: fix_record_def Let_def dict_get_dict_set)

lemma fix_record_keywords:
  "dict_get (fix_record token keywords raw) ''keywords_matched'' JNull
     = (if py_truthy (dict_get raw ''keywords_matched'' JNull)
        then dict_get raw ''keywords_matched'' JNull
        else JArr (map JStr keywords))"
  by (simp add: fix_record_def Let_def dict_get_dict_set)

lemma normalize_record_Some:
  assumes "normalize_record C token keywords raw = Some opp"
  shows "\<exists>data. raw = JObj data \<and> py_truthy (dict_get data ''event_name'' JNull)
           \<and> opportunity_init C (fix_record token keywords data) = Inr opp"
  using assms
  by (cases raw) (auto simp: normalize_record_def split: if_splits sum.splits)

lemma required_str:
  "required_field validate_str data k = Inr s \<Longrightarrow> dict_get data k JNull = JStr s"
  by (cases "map_of data k"; cases "the (map_of data k)")
     (simp_all add: required_field_def dict_get_def)

lemma validate_confidence_bounds:
  "validate_confidence C v = Inr r \<Longrightarrow> 0 \<le> r \<and> r \<le> 1"
  by (auto simp: validate_confidence_def then_do_eq_Inr split: if_splits)

lemma validate_confidence_out_of_range:
  "r < 0 \<or> 1 < r \<Longrightarrow> validate_confidence C (JNum r) = Inl ValidationError"
  by (auto simp: validate_confidence_def)

lemma validate_confidence_half: "validate_confidence C (JNum (1 / 2)) = Inr (1 / 2)"
  by (simp add: validate_confidence_def)

lemma try_map_length: "try_map f xs = Inr ys \<Longrightarrow> length ys = length xs"
  by (induction xs arbitrary: ys) (auto simp: then_do_eq_Inr)

lemma try_map_validate_str: "try_map validate_str (map JStr xs) = Inr xs"
  by (induction xs) simp_all

text \<open>
  C7 (amended). A raw record whose \<^verbatim>\<open>confidence_score\<close> is absent or null, when the
  normalization accepts it, becomes an opportunity with the confidence score 0.5. A raw
  record whose \<^verbatim>\<open>confidence_score\<close> is a number outside the interval from 0 to 1 is not
  clamped: the bounds of the field reject it and the normalization skips the record.
\<close>

theorem confidence_score_default_or_reject:
  "(normalize_record C token keywords (JObj raw) = Some opp
      \<and> field_null raw ''confidence_score''
    \<longrightarrow> confidence_score opp = Some (1 / 2))
   \<and> (dict_get raw ''confidence_score'' JNull = JNum r \<and> (r < 0 \<or> 1 < r)
    \<longrightarrow> normalize_record C token keywords (JObj raw) = None)"
proof (intro conjI impI)
  assume a: "normalize_record C token keywords (JObj raw) = Some opp
      \<and> field_null raw ''confidence_score''"
  from normalize_record_Some [of C token "keywords" "JObj raw" opp] a
  have init: "opportunity_init C (fix_record token keywords raw) = Inr opp" by simp
  have "field_null (fix_record token keywords raw) ''confidence_score''"
    using a by (simp add: field_null_fix_record_other)
  with opportunity_init_fields(11) [OF init] show "confidence_score opp = Some (1 / 2)"
    by (auto simp: validate_confidence_half)
next
  assume a: "dict_get raw ''confidence_score'' JNull = JNum r \<and> (r < 0 \<or> 1 < r)"
  show "normalize_record C token keywords (JObj raw) = None"
  proof (cases "normalize_record C token keywords (JObj raw)")
    case None
    then show ?thesis .
  next
    case (Some opp')
    from normalize_record_Some [OF Some]
    have init: "opportunity_init C (fix_record token keywords raw) = Inr opp'" by simp
    have "dict_get (fix_record token keywords raw) ''confidence_score'' JNull = JNum r"
      using a by (simp add: dict_get_fix_record_other)
    with opportunity_init_fields(11) [OF init] a show ?thesis
      by (simp add: field_null_def validate_confidence_out_of_range)
  qed
qed

lemma sample_normalize:
  "normalize_record C ''0a1b2c3d'' [] (JObj sample_raw) = Some sample_opportunity"
proof -
  have "fix_record ''0a1b2c3d'' [] sample_raw
      = sample_raw @ [(''keywords_matched'', JArr [])]"
    by (simp add: fix_record_def sample_raw_def Let_def dict_get_Cons dict_get_Nil)
  moreover have "opportunity_init C (sample_raw @ [(''keywords_matched'', JArr [])])
      = Inr sample_opportunity"
    unfolding opportunity_init_unfold sample_raw_def sample_opportunity_def
    by (simp add: record_eval validate_optional_def validate_event_type_other
      compensation_init_sample location_init_empty application_info_init_empty
      validate_confidence_def default_date_info_def)
  ultimately show ?thesis
    by (simp add: normalize_record_def sample_raw_def dict_get_Cons)
qed

theorem confidence_score_default_or_reject_witness:
  "normalize_record no_coercion ''0a1b2c3d'' [] (JObj sample_raw) = Some sample_opportunity
   \<and> field_null sample_raw ''confidence_score''
   \<and> confidence_score sample_opportunity = Some (1 / 2)
   \<and> dict_get sample_raw_overconfident ''confidence_score'' JNull = JNum (3 / 2)
   \<and> normalize_record no_coercion ''0a1b2c3d'' [] (JObj sample_raw_overconfident) = None"
proof -
  have h1: "normalize_record no_coercion ''0a1b2c3d'' [] (JObj sample_raw)
      = Some sample_opportunity"
    by (rule sample_normalize)
  have h2: "field_null sample_raw ''confidence_score''"
    by (simp add: sample_raw_def record_eval)
  have h3: "dict_get sample_raw_overconfident ''confidence_score'' JNull = JNum (3 / 2)"
    by (simp add: sample_raw_overconfident_def record_eval)
  have h4: "(3 / 2 :: rat) < 0 \<or> 1 < (3 / 2 :: rat)" by simp
  from confidence_score_default_or_reject
    [of no_coercion "''0a1b2c3d''" "[]" sample_raw sample_opportunity "3 / 2"]
  have "confidence_score sample_opportunity = Some (1 / 2)"
    using h1 h2 by blast
  moreover from confidence_score_default_or_reject
    [of no_coercion "''0a1b2c3d''" "[]" sample_raw_overconfident sample_opportunity "3 / 2"]
  have "normalize_record no_coercion ''0a1b2c3d'' [] (JObj sample_raw_overconfident) = None"
    using h3 h4 by blast
  ultimately show ?thesis using h1 h2 h3 by blast
qed

text \<open>
  C7 as stated fails on a record with the confidence score 1.5: the normalization
  produces no opportunity for it, with the score 0.5 or any other.
\<close>

theorem out_of_range_confidence_is_rejected:
  "dict_get sample_raw_overconfident ''confidence_score'' JNull = JNum (3 / 2)
   \<and> \<not> (0 \<le> (3 / 2 :: rat) \<and> (3 / 2 :: rat) \<le> 1)
   \<and> validate_and_fix_opportunities no_coercion sample_fresh
        [JObj sample_raw_overconfident] [] = []"
proof -
  have "fix_record (sample_fresh 0) [] sample_raw_overconfident
      = sample_raw_overconfident @ [(''keywords_matched'', JArr [])]"
    by (simp add: fix_record_def sample_raw_overconfident_def Let_def dict_get_Cons dict_get_Nil)
  moreover have "opportunity_init no_coercion
      (sample_raw_overconfident @ [(''keywords_matched'', JArr [])]) = Inl ValidationError"
    unfolding opportunity_init_unfold sample_raw_overconfident_def
    by (simp add: record_eval validate_optional_def validate_event_type_other
      compensation_init_empty location_init_empty application_info_init_empty
      validate_confidence_def default_date_info_def)
  ultimately show ?thesis
    by (simp add: validate_and_fix_opportunities_def normalize_record_def
        sample_raw_overconfident_def dict_get_Cons dict_get_Nil)
qed

subsection \<open>What an accepted record looks like\<close>

lemma validate_str_list_truthy:
  assumes "validate_str_list v = Inr ks" "py_truthy v"
  shows "ks \<noteq> []"
proof -
  from assms(1) obtain xs where v: "v = JArr xs" "try_map validate_str xs = Inr ks"
    by (cases v) simp_all
  from try_map_length [OF v(2)] assms(2) v(1) show ?thesis by auto
qed

lemma validate_str_list_keywords: "validate_str_list (JArr (map JStr ks)) = Inr ks"
  by (simp add: try_map_validate_str)

lemma normalize_record_normalized:
  assumes "normalize_record C token keywords raw = Some opp"
  shows "normalized keywords opp"
proof -
  from normalize_record_Some [OF assms] obtain data
    where raw: "raw = JObj data"
      and name: "py_truthy (dict_get data ''event_name'' JNull)"
      and init: "opportunity_init C (fix_record token keywords data) = Inr opp" by blast
  let ?D = "fix_record token keywords data"
  have "dict_get ?D ''id'' JNull = JStr (opp_id opp)"
    using opportunity_init_fields(2) [OF init] by (rule required_str)
  with fix_record_id [of token "keywords" data] have p1: "opp_id opp \<noteq> []" by simp
  have "dict_get ?D ''event_name'' JNull = JStr (event_name opp)"
    using opportunity_init_fields(3) [OF init] by (rule required_str)
  with name have p2: "event_name opp \<noteq> []"
    by (simp add: dict_get_fix_record_other)
  have p3: "event_type opp \<noteq> None"
    using opportunity_init_fields(4) [OF init] by auto
  have p4: "non_null opp"
    using init by (rule opportunity_init_non_null_aux)
  from opportunity_init_compensation [OF init] obtain c
    where c: "compensation opp = Some c"
      "compensation_init C (sub_record ?D ''compensation'') = Inr c" by blast
  have p5: "(case compensation opp of Some c \<Rightarrow> compensation_type c \<noteq> None | None \<Rightarrow> False)"
    using c(1) compensation_init_props [OF c(2)] by simp
  from opportunity_init_fields(10) [OF init] obtain km
    where km: "validate_str_list
        (if field_null ?D ''keywords_matched'' then JArr []
         else dict_get ?D ''keywords_matched'' JNull) = Inr km"
      "keywords_matched opp = Some km" by blast
  have p6: "(case keywords_matched opp of
         Some ks \<Rightarrow> if ks = [] then keywords = [] else True | None \<Rightarrow> False)"
  proof (cases "py_truthy (dict_get data ''keywords_matched'' JNull)")
    case True
    then have v: "dict_get ?D ''keywords_matched'' JNull = dict_get data ''keywords_matched'' JNull"
      by (simp add: fix_record_keywords)
    with True have "\<not> field_null ?D ''keywords_matched''"
      by (auto simp: field_null_def)
    with km(1) v have "validate_str_list (dict_get data ''keywords_matched'' JNull) = Inr km"
      by simp
    from validate_str_list_truthy [OF this True] km(2) show ?thesis by simp
  next
    case False
    then have v: "dict_get ?D ''keywords_matched'' JNull = JArr (map JStr keywords)"
      by (simp add: fix_record_keywords)
    then have "\<not> field_null ?D ''keywords_matched''"
      by (simp add: field_null_def)
    with km(1) v have "km = keywords"
      by (simp add: try_map_validate_str)
    with km(2) show ?thesis by simp
  qed
  from opportunity_init_fields(11) [OF init] obtain r
    where r: "validate_confidence C
        (if field_null ?D ''confidence_score'' then JNum (1 / 2)
         else dict_get ?D ''confidence_score'' JNull) = Inr r"
      "confidence_score opp = Some r" by blast
  have p7: "(case confidence_score opp of Some r \<Rightarrow> 0 \<le> r \<and> r \<le> 1 | None \<Rightarrow> False)"
    using validate_confidence_bounds [OF r(1)] r(2) by simp
  show ?thesis
    unfolding normalized_def using p1 p2 p3 p4 p5 p6 p7 by blast
qed

subsection \<open>Validating the record of an opportunity\<close>

lemma dump_optional_Some: "dump_optional f (Some a) = f a"
  by (simp add: dump_optional_def)

lemma validate_optional_str: "validate_optional validate_str (dump_optional JStr x) = Inr x"
  by (cases x) (simp_all add: validate_optional_def dump_optional_def)

lemma validate_optional_float:
  "validate_optional (validate_float C) (dump_optional JNum x) = Inr x"
  by (cases x) (simp_all add: validate_optional_def dump_optional_def)

lemma validate_optional_bool:
  "validate_optional (validate_bool C) (JBool b) = Inr (Some b)"
  by (simp add: validate_optional_def)

lemma validate_optional_str_list:
  "validate_optional validate_str_list (dump_str_list xs) = Inr (Some xs)"
  by (simp add: validate_optional_def dump_str_list_def try_map_validate_str)

lemma validate_optional_compensation_type:
  "validate_optional (validate_compensation_type C) (JStr (compensation_type_value t))
     = Inr (Some t)"
  by (simp add: validate_optional_def validate_compensation_type_value)

lemma validate_date_info_dump: "validate_date_info (dump_date_info d) = Inr d"
  by (cases d) (simp add: dump_date_info_def optional_field_Cons validate_optional_str)

lemma default_none_id: "\<not> field_null data k \<Longrightarrow> default_none k v data = data"
  by (simp add: default_none_def field_null_def)

lemma validate_location_dump:
  assumes "location_non_null l"
  shows "validate_location C (dump_location l) = Inr l"
proof -
  obtain v ci st co iv hv where l: "l = \<lparr>venue = v, city = ci, state = st, country = co,
      is_virtual = iv, has_virtual_option = hv\<rparr>"
    by (cases l) simp
  from assms l obtain b1 b2 where b: "iv = Some b1" "hv = Some b2"
    by (auto simp: location_non_null_def)
  show ?thesis
    unfolding l b dump_location_def
    by (simp add: location_init_def Let_def default_none_id record_eval dump_optional_Some
        validate_optional_str validate_optional_bool)
qed

lemma validate_compensation_dump:
  assumes "compensation_non_null c" "compensation_type c \<noteq> None"
  shows "validate_compensation C (dump_compensation c) = Inr c"
proof -
  obtain ip ct am cu it ia de where c: "c = \<lparr>is_paid = ip, compensation_type = ct, amount = am,
      currency = cu, includes_travel = it, includes_accommodation = ia, details = de\<rparr>"
    by (cases c) simp
  from assms c obtain b1 t b2 b3
    where b: "ip = Some b1" "ct = Some t" "it = Some b2" "ia = Some b3"
    by (auto simp: compensation_non_null_def)
  show ?thesis
    unfolding c b dump_compensation_def
    by (simp add: compensation_init_def Let_def default_none_id record_eval dump_optional_Some
        validate_optional_str validate_optional_bool validate_optional_float
        validate_optional_compensation_type)
qed

lemma validate_application_info_dump:
  assumes "application_non_null a"
  shows "validate_application_info (dump_application_info a) = Inr a"
proof -
  obtain u ce rq where a: "a = \<lparr>url = u, contact_email = ce, requirements = rq\<rparr>"
    by (cases a) simp
  from assms a obtain xs where b: "rq = Some xs"
    by (auto simp: application_non_null_def)
  have nn: "dump_str_list xs \<noteq> JNull" by (simp add: dump_str_list_def)
  show ?thesis
    unfolding a b dump_application_info_def
    by (simp add: application_info_init_def Let_def default_none_id record_eval
        dump_optional_Some validate_optional_str validate_optional_str_list nn)
qed

lemma dump_not_null:
  "dump_date_info d \<noteq> JNull" "dump_location l \<noteq> JNull" "dump_compensation c \<noteq> JNull"
  "dump_application_info a \<noteq> JNull" "dump_str_list xs \<noteq> JNull"
  by (simp_all add: dump_date_info_def dump_location_def dump_compensation_def
      dump_application_info_def dump_str_list_def)

lemma normalize_record_dump:
  assumes "normalized keywords opp"
  shows "normalize_record C token keywords (opportunity_record opp) = Some opp"
proof -
  obtain i en et de da lo co ap ta ea km su cs
    where opp: "opp = \<lparr>opp_id = i, event_name = en, event_type = et, description = de,
        dates = da, location = lo, compensation = co, application = ap,
        target_audience = ta, expected_audience_size = ea, keywords_matched = km,
        source_url = su, confidence_score = cs\<rparr>"
    by (cases opp) simp
  from assms opp obtain t d l c a xs ks r
    where some: "et = Some t" "da = Some d" "lo = Some l" "co = Some c" "ap = Some a"
      "ta = Some xs" "km = Some ks" "cs = Some r"
    and nonempty: "i \<noteq> []" "en \<noteq> []"
    and nested: "location_non_null l" "compensation_non_null c" "compensation_type c \<noteq> None"
      "application_non_null a"
    and kw: "ks = [] \<Longrightarrow> keywords = []"
    and bounds: "0 \<le> r" "r \<le> 1"
    by (auto simp: normalized_def non_null_def split: option.splits if_splits)
  let ?D = "[(''id'', JStr i),
           (''event_name'', JStr en),
           (''event_type'', JStr (opportunity_type_value t)),
           (''description'', dump_optional JStr de),
           (''dates'', dump_date_info d),
           (''location'', dump_location l),
           (''compensation'', dump_compensation c),
           (''application'', dump_application_info a),
           (''target_audience'', dump_str_list xs),
           (''expected_audience_size'', dump_optional JStr ea),
           (''keywords_matched'', dump_str_list ks),
           (''source_url'', dump_optional JStr su),
           (''confidence_score'', JNum r)]"
  have dumped: "opportunity_record opp = JObj ?D"
    unfolding opp some by (simp add: opportunity_record_def dump_optional_Some)
  have name: "py_truthy (dict_get ?D ''event_name'' JNull)"
    using nonempty(2) by (simp add: dict_get_Cons)
  have kws: "\<not> py_truthy (dump_str_list ks) \<Longrightarrow> dump_str_list ks = JArr (map JStr keywords)"
    using kw by (auto simp: dump_str_list_def)
  have fixed: "fix_record token keywords ?D = ?D"
    using nonempty(1) kws
    by (simp add: fix_record_def Let_def dict_get_Cons)
  have init: "opportunity_init C ?D = Inr opp"
    unfolding opportunity_init_unfold opp some
    by (simp add: record_eval dump_not_null validate_optional_str
        validate_optional_str_list validate_event_type_value
        validate_date_info_dump validate_location_dump [OF nested(1)]
        validate_compensation_dump [OF nested(2,3)]
        validate_application_info_dump [OF nested(4)]
        dump_str_list_def try_map_validate_str validate_confidence_def bounds)
  show ?thesis
    unfolding dumped using name by (simp add: normalize_record_def fixed init)
qed

lemma validate_from_normalized:
  "list_all (normalized keywords) (validate_from C fresh keywords i raws)"
proof (induction raws arbitrary: i)
  case Nil
  then show ?case by simp
next
  case (Cons raw raws)
  show ?case
  proof (cases "normalize_record C (fresh i) keywords raw")
    case None
    then show ?thesis using Cons.IH by simp
  next
    case (Some opp)
    from normalize_record_normalized [OF Some] show ?thesis
      using Some Cons.IH by simp
  qed
qed

lemma validate_from_dump:
  assumes "list_all (normalized keywords) opps"
  shows "validate_from C fresh keywords i (map opportunity_record opps) = opps"
  using assms
proof (induction opps arbitrary: i)
  case Nil
  then show ?case by simp
next
  case (Cons opp opps)
  then have "normalized keywords opp" and rest: "list_all (normalized keywords) opps"
    by simp_all
  then have "normalize_record C (fresh i) keywords (opportunity_record opp) = Some opp"
    by (simp add: normalize_record_dump)
  then show ?case using Cons.IH [OF rest] by simp
qed

text \<open>
  C9. Normalization is idempotent: the records of the opportunities that
  \<^verbatim>\<open>_validate_and_fix_opportunities\<close> returns for a list of raw records and a keyword list,
  normalized again with the same keyword list, give the same opportunities (whatever
  tokens the second run would draw, it draws none).
\<close>

theorem normalization_idempotent:
  "validate_and_fix_opportunities C fresh'
     (map opportunity_record (validate_and_fix_opportunities C fresh raw_opportunities keywords))
     keywords
   = validate_and_fix_opportunities C fresh raw_opportunities keywords"
  unfolding validate_and_fix_opportunities_def
  by (rule validate_from_dump) (rule validate_from_normalized)

lemma sample_validate_and_fix:
  "validate_and_fix_opportunities no_coercion sample_fresh [JObj sample_raw] [''ai'']
     = [sample_opportunity\<lparr>keywords_matched := Some [''ai'']\<rparr>]"
proof -
  have "fix_record (sample_fresh 0) [''ai''] sample_raw
      = sample_raw @ [(''keywords_matched'', JArr [JStr ''ai''])]"
    by (simp add: fix_record_def sample_raw_def Let_def dict_get_Cons dict_get_Nil)
  moreover have "opportunity_init no_coercion
      (sample_raw @ [(''keywords_matched'', JArr [JStr ''ai''])])
      = Inr (sample_opportunity\<lparr>keywords_matched := Some [''ai'']\<rparr>)"
    unfolding opportunity_init_unfold sample_raw_def sample_opportunity_def
    by (simp add: record_eval validate_optional_def validate_event_type_other
      compensation_init_sample location_init_empty application_info_init_empty
      validate_confidence_def default_date_info_def)
  ultimately show ?thesis
    by (simp add: validate_and_fix_opportunities_def normalize_record_def sample_raw_def
        dict_get_Cons)
qed

theorem normalization_idempotent_witness:
  "validate_and_fix_opportunities no_coercion sample_fresh [JObj sample_raw] [''ai'']
     = [sample_opportunity\<lparr>keywords_matched := Some [''ai'']\<rparr>]
   \<and> validate_and_fix_opportunities no_coercion sample_fresh
       [opportunity_record (sample_opportunity\<lparr>keywords_matched := Some [''ai'']\<rparr>)] [''ai'']
     = [sample_opportunity\<lparr>keywords_matched := Some [''ai'']\<rparr>]"
  using normalization_idempotent
    [of no_coercion sample_fresh sample_fresh "[JObj sample_raw]" "[''ai'']"]
  by (simp add: sample_validate_and_fix)

end
